theory Spec2Isabelle
  imports Main
begin

unbundle bit_operations_syntax

section \<open>The Battlesnake HTTP server (package server)\<close>

text \<open>
  The package has two files: the leveled logger (logger.go) and the HTTP server with its
  four route handlers and the request-logging middleware (server.go).  Both are embedded
  below function by function.  What the package takes from the Go standard library
  (encoding/json, fmt, io, net/http) is either a parameter of the model or a small model of
  the documented library behaviour, and is marked as such.  \<open>Start\<close>, which opens the
  listener and serves until the process ends, is not part of the model: the model begins
  where a request reaches \<open>ServeHTTP\<close>.
\<close>

subsection \<open>Game records (server.go)\<close>

text \<open>Go's \<open>int\<close> fields are never computed with; they are modelled as \<open>int\<close>.\<close>

record Coord =
  X :: int
  Y :: int

record Customizations =
  Color :: string
  Head :: string
  Tail :: string

record Battlesnake =
  ID :: string
  Name :: string
  Health :: int
  Body :: "Coord list"
  Head :: Coord
  Length :: int
  Latency :: string
  Shout :: string
  Squad :: string
  Customizations :: Customizations

record Board =
  Height :: int
  Width :: int
  Food :: "Coord list"
  Hazards :: "Coord list"
  Snakes :: "Battlesnake list"

record RoyaleSettings =
  ShrinkEveryNTurns :: int

record SquadSettings =
  AllowBodyCollisions :: bool
  SharedElimination :: bool
  SharedHealth :: bool
  SharedLength :: bool

record RulesetSettings =
  FoodSpawnChance :: int
  MinimumFood :: int
  HazardDamagePerTurn :: int
  HazardMap :: string
  HazardMapAuthor :: string
  Royale :: RoyaleSettings
  Squad :: SquadSettings

record Ruleset =
  Name :: string
  Version :: string
  Settings :: RulesetSettings

record Game =
  ID :: string
  Ruleset :: Ruleset
  Map :: string
  Source :: string
  Timeout :: int

record GameState =
  Game :: Game
  Turn :: int
  Board :: Board
  You :: Battlesnake

record InfoResponse =
  APIVersion :: string
  Author :: string
  Color :: string
  Head :: string
  Tail :: string
  Version :: string

record MoveResponse =
  Move :: string
  Shout :: string

definition apiVersion :: string where
  "apiVersion = ''1''"

subsection \<open>Shared objects\<close>

text \<open>
  Two kinds of object are reached through pointers and outlive a call: the caller's
  \<open>InfoResponse\<close> (the server keeps the pointer it was given) and the \<open>log.Logger\<close> that
  the leveled logger wraps.  Both live in a store indexed by references.  Of a
  \<open>log.Logger\<close> the store keeps what it was asked to print: the \<open>Printf\<close> calls in
  order, each with its format and operands.
\<close>

type_synonym ref = nat

datatype Arg = S string | I int | E string
  \<comment> \<open>an operand passed as \<open>any\<close>: a string, an int, or an error with its message\<close>

type_synonym PrintfCall = "string \<times> Arg list"

record World =
  infoCells :: "ref \<Rightarrow> InfoResponse"
  logOutput :: "ref \<Rightarrow> PrintfCall list"

subsection \<open>The leveled logger (logger.go)\<close>

definition LError :: int where
  "LError = push_bit 0 1"

definition LWarning :: int where
  "LWarning = push_bit 1 1"

definition LInfo :: int where
  "LInfo = push_bit 2 1"

definition LDebug :: int where
  "LDebug = push_bit 3 1"

definition LDefault :: int where
  "LDefault = LError OR LWarning OR LInfo"

record Logger =
  log_Logger :: ref \<comment> \<open>the embedded \<open>*log.Logger\<close>\<close>
  opts :: int

definition Printf :: "Logger \<Rightarrow> string \<Rightarrow> Arg list \<Rightarrow> World \<Rightarrow> World" where
  \<comment> \<open>the method promoted from the embedded \<open>*log.Logger\<close>\<close>
  "Printf l format v world =
     world\<lparr>logOutput := (logOutput world)
       (log_Logger l := logOutput world (log_Logger l) @ [(format, v)])\<rparr>"

definition NewLogger :: "ref \<Rightarrow> int \<Rightarrow> Logger" where
  "NewLogger logger opts' = \<lparr>log_Logger = logger, opts = opts'\<rparr>"

definition Enabled :: "Logger \<Rightarrow> int \<Rightarrow> bool" where
  "Enabled l opt = (opts l AND opt \<noteq> 0)"

definition Info :: "Logger \<Rightarrow> string \<Rightarrow> Arg list \<Rightarrow> World \<Rightarrow> World" where
  "Info l format v world =
     (if opts l AND LInfo \<noteq> 0 then Printf l (''INFO '' @ format) v world else world)"

definition Warn :: "Logger \<Rightarrow> string \<Rightarrow> Arg list \<Rightarrow> World \<Rightarrow> World" where
  "Warn l format v world =
     (if opts l AND LWarning \<noteq> 0 then Printf l (''WARN '' @ format) v world else world)"

definition Err :: "Logger \<Rightarrow> string \<Rightarrow> Arg list \<Rightarrow> World \<Rightarrow> World" where
  "Err l format v world =
     (if opts l AND LError \<noteq> 0 then Printf l (''ERROR '' @ format) v world else world)"

definition Debug :: "Logger \<Rightarrow> string \<Rightarrow> Arg list \<Rightarrow> World \<Rightarrow> World" where
  "Debug l format v world =
     (if opts l AND LDebug \<noteq> 0 then Printf l (''DEBUG '' @ format) v world else world)"

subsection \<open>The text of a log line (fmt.Sprintf, the verbs the package uses)\<close>

text \<open>
  \<open>log.Logger.Printf\<close> prints \<open>fmt.Sprintf format v\<close>.  The model of \<open>Sprintf\<close> covers
  literal text, \<open>%%\<close>, and the verbs \<open>%s\<close>, \<open>%d\<close> and \<open>%v\<close> applied to an operand of a
  matching kind.  Everything else (flags, widths, other verbs, a missing or a surplus
  operand) is outside this model and gives \<open>None\<close>.  What the \<open>log.Logger\<close> itself
  puts around the text (its prefix, the time stamp, the line end) is its own
  configuration and not modelled.
\<close>

fun digits :: "nat \<Rightarrow> string" where
  "digits n =
     (if n < 10 then [''0123456789'' ! n]
      else digits (n div 10) @ [''0123456789'' ! (n mod 10)])"

definition Itoa :: "int \<Rightarrow> string" where
  "Itoa i = (if i < 0 then CHR ''-'' # digits (nat (- i)) else digits (nat i))"

fun formatArg :: "char \<Rightarrow> Arg \<Rightarrow> string option" where
  "formatArg verb (S s) = (if verb = CHR ''s'' \<or> verb = CHR ''v'' then Some s else None)"
| "formatArg verb (I i) = (if verb = CHR ''d'' \<or> verb = CHR ''v'' then Some (Itoa i) else None)"
| "formatArg verb (E e) = (if verb = CHR ''s'' \<or> verb = CHR ''v'' then Some e else None)"

fun Sprintf :: "string \<Rightarrow> Arg list \<Rightarrow> string option" where
  "Sprintf [] v = (if v = [] then Some [] else None)"
| "Sprintf (c # cs) v =
     (if c = CHR ''%'' then
        (case cs of
           [] \<Rightarrow> None
         | verb # rest \<Rightarrow>
             if verb = CHR ''%'' then map_option ((#) CHR ''%'') (Sprintf rest v)
             else (case v of
                     [] \<Rightarrow> None
                   | a # v' \<Rightarrow>
                       (case formatArg verb a of
                          None \<Rightarrow> None
                        | Some t \<Rightarrow> map_option ((@) t) (Sprintf rest v'))))
      else map_option ((#) c) (Sprintf cs v))"

definition lineText :: "PrintfCall \<Rightarrow> string option" where
  "lineText call = Sprintf (fst call) (snd call)"

subsection \<open>Requests and responses (net/http, io)\<close>

text \<open>
  A request body is an \<open>io.ReadCloser\<close>, a stream that is used up by reading: its state
  is the bytes it still has to deliver and, when the transport breaks before the end, the
  error that ends the stream in place of EOF.  Reading gives a result and leaves the
  stream in a new state: \<open>io.ReadAll\<close> returns all remaining bytes (or the error) and
  leaves a stream that has nothing more to deliver.  The server always hands a handler a
  body that is not nil.
\<close>

datatype ReadCloser = Reader string "string option"

fun ReadAll :: "ReadCloser \<Rightarrow> (string + string) \<times> ReadCloser" where
  \<comment> \<open>the result (\<open>Inl\<close> the error) and the stream after the read\<close>
  "ReadAll (Reader b None) = (Inr b, Reader [] None)"
| "ReadAll (Reader b (Some err)) = (Inl err, Reader [] (Some err))"

definition NewBuffer :: "string \<Rightarrow> ReadCloser" where
  "NewBuffer b = Reader b None"

definition NopCloser :: "ReadCloser \<Rightarrow> ReadCloser" where
  "NopCloser rd = rd"

text \<open>
  Of a request the model keeps the method, the request target and the body.  The target
  is either the asterisk form (\<open>r.RequestURI\<close> is \<open>*\<close>) or a URL, of which only the
  path matters here.  \<open>Path\<close> is \<open>r.URL.Path\<close>; for the asterisk form it is \<open>*\<close>, or
  empty when the method is CONNECT.
\<close>

datatype Target = Asterisk | URL string

record Request =
  Method :: string
  Target :: Target
  Body :: ReadCloser

definition Path :: "Request \<Rightarrow> string" where
  "Path r =
     (case Target r of
        URL p \<Rightarrow> p
      | Asterisk \<Rightarrow> if Method r = ''CONNECT'' then [] else ''*'')"

text \<open>
  A \<open>ResponseWriter\<close> is modelled as a recorder of what is sent: the status code once
  the header has been written, the header fields as they were at that moment, and the
  bytes of the body.  Writing to it does not fail.
\<close>

record ResponseWriter =
  wroteHeader :: "nat option"
  Header :: "string \<rightharpoonup> string"
  Written :: string

definition NewRecorder :: ResponseWriter where
  "NewRecorder = \<lparr>wroteHeader = None, Header = Map.empty, Written = []\<rparr>"

definition StatusOK :: nat where
  "StatusOK = 200"

definition StatusMovedPermanently :: nat where
  "StatusMovedPermanently = 301"

definition StatusBadRequest :: nat where
  "StatusBadRequest = 400"

definition StatusNotFound :: nat where
  "StatusNotFound = 404"

definition StatusInternalServerError :: nat where
  "StatusInternalServerError = 500"

definition WriteHeader :: "ResponseWriter \<Rightarrow> nat \<Rightarrow> ResponseWriter" where
  \<comment> \<open>only the first call counts; a later one is superfluous and ignored\<close>
  "WriteHeader w code = (if wroteHeader w = None then w\<lparr>wroteHeader := Some code\<rparr> else w)"

definition Write :: "ResponseWriter \<Rightarrow> string \<Rightarrow> ResponseWriter" where
  \<comment> \<open>the first write sends the header with status 200 if none was written\<close>
  "Write w b = (let w' = WriteHeader w StatusOK in w'\<lparr>Written := Written w' @ b\<rparr>)"

definition StatusCode :: "ResponseWriter \<Rightarrow> nat" where
  \<comment> \<open>a handler that returns without writing a header answers 200\<close>
  "StatusCode w = (case wroteHeader w of None \<Rightarrow> StatusOK | Some code \<Rightarrow> code)"

definition toUpper :: "char \<Rightarrow> char" where
  "toUpper c =
     (case map_of (zip ''abcdefghijklmnopqrstuvwxyz'' ''ABCDEFGHIJKLMNOPQRSTUVWXYZ'') c of
        Some u \<Rightarrow> u | None \<Rightarrow> c)"

definition toLower :: "char \<Rightarrow> char" where
  "toLower c =
     (case map_of (zip ''ABCDEFGHIJKLMNOPQRSTUVWXYZ'' ''abcdefghijklmnopqrstuvwxyz'') c of
        Some l \<Rightarrow> l | None \<Rightarrow> c)"

definition validHeaderFieldByte :: "char \<Rightarrow> bool" where
  "validHeaderFieldByte c =
     (c \<in> set (''abcdefghijklmnopqrstuvwxyz'' @ ''ABCDEFGHIJKLMNOPQRSTUVWXYZ'' @ ''0123456789''
               @ ''!#$%&*+-.^_`|~'' @ [CHR 0x27]))"

fun canonicalize :: "bool \<Rightarrow> string \<Rightarrow> string" where
  "canonicalize upper [] = []"
| "canonicalize upper (c # cs) =
     (if upper then toUpper c else toLower c) # canonicalize (c = CHR ''-'') cs"

definition CanonicalHeaderKey :: "string \<Rightarrow> string" where
  \<comment> \<open>header names are stored in canonical form: \<open>content-type\<close> is \<open>Content-Type\<close>\<close>
  "CanonicalHeaderKey k = (if list_all validHeaderFieldByte k then canonicalize True k else k)"

definition Header_Set :: "ResponseWriter \<Rightarrow> string \<Rightarrow> string \<Rightarrow> ResponseWriter" where
  \<comment> \<open>\<open>w.Header().Set(k, v)\<close>; fields set after the header was written are not sent\<close>
  "Header_Set w k v =
     (if wroteHeader w = None then w\<lparr>Header := (Header w)(CanonicalHeaderKey k \<mapsto> v)\<rparr> else w)"

definition Header_Get :: "ResponseWriter \<Rightarrow> string \<Rightarrow> string option" where
  "Header_Get w k = Header w (CanonicalHeaderKey k)"

subsection \<open>encoding/json, as the handlers use it\<close>

text \<open>
  The JSON codec is a parameter.  \<open>Decode\<close> is \<open>json.NewDecoder(body).Decode(&state)\<close>
  with \<open>state\<close> a \<open>*GameState\<close>: it fails with an error, or it succeeds and leaves in
  \<open>state\<close> either a game state or, for the JSON literal \<open>null\<close>, the nil pointer.
  Decoding reads from the stream it is given; no handler uses the body afterwards, so
  the state in which decoding leaves the stream is not kept.
  \<open>EncodeInfo\<close> and \<open>EncodeMove\<close> give the bytes that \<open>json.Encoder.Encode\<close> writes
  for a value (its JSON text and the line end that terminates it), or the error it
  returns without writing.
\<close>

record JSON =
  Decode :: "ReadCloser \<Rightarrow> string + GameState option"
  EncodeInfo :: "InfoResponse \<Rightarrow> string + string"
  EncodeMove :: "MoveResponse \<Rightarrow> string + string"

definition Encode ::
  "('a \<Rightarrow> string + string) \<Rightarrow> ResponseWriter \<Rightarrow> 'a \<Rightarrow> ResponseWriter \<times> string option" where
  \<comment> \<open>\<open>json.NewEncoder(w).Encode(v)\<close>: the writer afterwards and the error, if any\<close>
  "Encode enc w v = (case enc v of Inl err \<Rightarrow> (w, Some err) | Inr b \<Rightarrow> (Write w b, None))"

subsection \<open>The server (server.go)\<close>

text \<open>
  The caller's move function receives the decoded state (a pointer, possibly nil) and
  the server's logger.  It is modelled as a function of these two that returns its
  answer and what it printed through the logger it was handed: it is taken to return,
  and to leave the state it was given as it found it.
\<close>

type_synonym MoveFunc = "GameState option \<Rightarrow> Logger \<Rightarrow> MoveResponse \<times> PrintfCall list"

text \<open>
  Running a handler gives: the store afterwards, the response, the calls made to the
  move function (argument state and logger), and whether the handler panicked instead
  of returning.
\<close>

record Run =
  finalWorld :: World
  response :: ResponseWriter
  moveCalls :: "(GameState option \<times> Logger) list"
  panicked :: bool

type_synonym HandlerFunc = "ResponseWriter \<Rightarrow> Request \<Rightarrow> World \<Rightarrow> Run"

type_synonym ServeMux = "(string \<times> HandlerFunc) list"

record BattlesnakeServer =
  Handler :: ServeMux
  port :: string
  info :: ref
  logger :: Logger
  moveFunc :: MoveFunc

definition callerOutput :: "Logger \<Rightarrow> PrintfCall list \<Rightarrow> World \<Rightarrow> World" where
  \<comment> \<open>what the move function printed reaches the logger's \<open>log.Logger\<close>\<close>
  "callerOutput l calls world =
     world\<lparr>logOutput := (logOutput world)
       (log_Logger l := logOutput world (log_Logger l) @ calls)\<rparr>"

definition indexHandler :: "JSON \<Rightarrow> BattlesnakeServer \<Rightarrow> HandlerFunc" where
  "indexHandler js s w r world =
     (if Path r \<noteq> ''/'' then
        \<lparr>finalWorld = world, response = WriteHeader w StatusNotFound,
         moveCalls = [], panicked = False\<rparr>
      else
        let w1 = Header_Set w ''content-type'' ''application/json'' in
        (case Encode (EncodeInfo js) w1 (infoCells world (info s)) of
           (w2, Some err) \<Rightarrow>
             \<lparr>finalWorld = Err (logger s) ''Failed to encode index response: %s'' [E err] world,
              response = WriteHeader w2 StatusInternalServerError,
              moveCalls = [], panicked = False\<rparr>
         | (w2, None) \<Rightarrow>
             \<lparr>finalWorld = world, response = w2, moveCalls = [], panicked = False\<rparr>))"

definition startHandler :: "JSON \<Rightarrow> BattlesnakeServer \<Rightarrow> HandlerFunc" where
  "startHandler js s w r world =
     (case Decode js (Body r) of
        Inl err \<Rightarrow>
          \<lparr>finalWorld = Err (logger s) ''Failed to decode start request body: %s'' [E err] world,
           response = WriteHeader w StatusBadRequest, moveCalls = [], panicked = False\<rparr>
      | Inr None \<Rightarrow>
          \<comment> \<open>\<open>state\<close> is nil: evaluating \<open>state.Game.ID\<close> panics\<close>
          \<lparr>finalWorld = world, response = w, moveCalls = [], panicked = True\<rparr>
      | Inr (Some state) \<Rightarrow>
          \<lparr>finalWorld = Info (logger s) ''Game ID %s [Turn %d] Snake ID %s - Start''
             [S (Game.ID (Game state)), I (Turn state), S (Battlesnake.ID (You state))] world,
           response = w, moveCalls = [], panicked = False\<rparr>)"

definition endHandler :: "JSON \<Rightarrow> BattlesnakeServer \<Rightarrow> HandlerFunc" where
  "endHandler js s w r world =
     (case Decode js (Body r) of
        Inl err \<Rightarrow>
          \<lparr>finalWorld = Err (logger s) ''Failed to decode end request body: %s'' [E err] world,
           response = WriteHeader w StatusBadRequest, moveCalls = [], panicked = False\<rparr>
      | Inr None \<Rightarrow>
          \<lparr>finalWorld = world, response = w, moveCalls = [], panicked = True\<rparr>
      | Inr (Some state) \<Rightarrow>
          \<lparr>finalWorld = Info (logger s) ''Game ID %s [Turn %d] Snake ID %s - End''
             [S (Game.ID (Game state)), I (Turn state), S (Battlesnake.ID (You state))] world,
           response = w, moveCalls = [], panicked = False\<rparr>)"

definition moveHandler :: "JSON \<Rightarrow> BattlesnakeServer \<Rightarrow> HandlerFunc" where
  "moveHandler js s w r world =
     (case Decode js (Body r) of
        Inl err \<Rightarrow>
          \<lparr>finalWorld = Err (logger s) ''Failed to decode move request body: %s'' [E err] world,
           response = WriteHeader w StatusBadRequest, moveCalls = [], panicked = False\<rparr>
      | Inr state \<Rightarrow>
          let (resp, printed) = moveFunc s state (logger s);
              world1 = callerOutput (logger s) printed world;
              w1 = Header_Set w ''Content-Type'' ''application/json''
          in (case Encode (EncodeMove js) w1 resp of
                (w2, Some err) \<Rightarrow>
                  \<lparr>finalWorld = Err (logger s) ''Failed to encode move response, %s'' [E err] world1,
                   response = WriteHeader w2 StatusInternalServerError,
                   moveCalls = [(state, logger s)], panicked = False\<rparr>
              | (w2, None) \<Rightarrow>
                  (case state of
                     None \<Rightarrow>
                       \<comment> \<open>\<open>state\<close> is nil: evaluating \<open>state.Game.ID\<close> panics\<close>
                       \<lparr>finalWorld = world1, response = w2,
                        moveCalls = [(state, logger s)], panicked = True\<rparr>
                   | Some st \<Rightarrow>
                       \<lparr>finalWorld = Info (logger s) ''Game ID %s [Turn %d] Snake ID %s - Move: %s''
                          [S (Game.ID (Game st)), I (Turn st), S (Battlesnake.ID (You st)),
                           S (Move resp)] world1,
                        response = w2, moveCalls = [(state, logger s)], panicked = False\<rparr>)))"

definition withRequestLogging :: "BattlesnakeServer \<Rightarrow> HandlerFunc \<Rightarrow> HandlerFunc" where
  "withRequestLogging s next =
     (if Enabled (logger s) LDebug then
        (\<lambda>w r world.
           case ReadAll (Body r) of
             (Inl err, rest) \<Rightarrow>
               \<lparr>finalWorld = Err (logger s) ''Failed to read request body: %s'' [E err] world,
                response = WriteHeader w StatusBadRequest, moveCalls = [], panicked = False\<rparr>
           | (Inr b, rest) \<Rightarrow>
               \<comment> \<open>\<open>r.Body\<close> is now the used-up stream \<open>rest\<close>; the assignment replaces it\<close>
               let r1 = r\<lparr>Body := rest\<rparr>;
                   r2 = r1\<lparr>Body := NopCloser (NewBuffer b)\<rparr>
               in next w r2
                    (Debug (logger s) ''%s %s %s\<newline>'' [S (Method r2), S (Path r2), S b] world))
      else next)"

subsection \<open>Routing (http.ServeMux)\<close>

text \<open>
  A mux is the list of its registrations.  A pattern that does not end in a slash
  matches that path only; a pattern that ends in a slash matches every path it is a
  prefix of, the longest such pattern winning; an exact match comes first.  Before
  anything else the mux answers a request whose target is the asterisk form with 400.
  Before matching, it compares the path with its canonical form (\<open>cleanPath\<close>: one
  leading slash, no empty, \<open>.\<close> or \<open>..\<close> element) and answers a request whose path
  is not canonical with a redirect (301), without running a handler; requests with
  method CONNECT are exempt.  Of these two answers of the mux itself the model keeps the
  status only: their header fields (the location of the redirect among them) and their
  bodies are not modelled.
\<close>

definition NewServeMux :: ServeMux where
  "NewServeMux = []"

definition HandleFunc :: "ServeMux \<Rightarrow> string \<Rightarrow> HandlerFunc \<Rightarrow> ServeMux" where
  "HandleFunc mux pattern h = mux @ [(pattern, h)]"

fun splitSlash :: "string \<Rightarrow> string list" where
  "splitSlash [] = [[]]"
| "splitSlash (c # cs) =
     (if c = CHR ''/'' then [] # splitSlash cs
      else (case splitSlash cs of [] \<Rightarrow> [[c]] | e # es \<Rightarrow> (c # e) # es))"

fun cleanElems :: "string list \<Rightarrow> string list \<Rightarrow> string list" where
  "cleanElems out [] = rev out"
| "cleanElems out (e # es) =
     (if e = [] \<or> e = ''.'' then cleanElems out es
      else if e = ''..'' then cleanElems (tl out) es
      else cleanElems (e # out) es)"

fun joinSlash :: "string list \<Rightarrow> string" where
  "joinSlash [] = []"
| "joinSlash [e] = e"
| "joinSlash (e # es) = e @ CHR ''/'' # joinSlash es"

definition Clean :: "string \<Rightarrow> string" where
  \<comment> \<open>\<open>path.Clean\<close> on a rooted path\<close>
  "Clean p = CHR ''/'' # joinSlash (cleanElems [] (splitSlash p))"

definition cleanPath :: "string \<Rightarrow> string" where
  "cleanPath p =
     (if p = [] then ''/''
      else let p1 = (if hd p = CHR ''/'' then p else CHR ''/'' # p);
               np = Clean p1
           in if last p1 = CHR ''/'' \<and> np \<noteq> ''/'' then np @ ''/'' else np)"

fun longest :: "(string \<times> 'h) list \<Rightarrow> (string \<times> 'h) option" where
  "longest [] = None"
| "longest (e # es) =
     (case longest es of
        None \<Rightarrow> Some e
      | Some e' \<Rightarrow> if length (fst e) < length (fst e') then Some e' else Some e)"

definition isSubtreeMatch :: "string \<Rightarrow> string \<Rightarrow> bool" where
  "isSubtreeMatch pattern path =
     (case rev pattern of
        [] \<Rightarrow> False
      | c # _ \<Rightarrow> c = CHR ''/'' \<and> take (length pattern) path = pattern)"

definition match :: "ServeMux \<Rightarrow> string \<Rightarrow> HandlerFunc option" where
  "match mux path =
     (case map_of mux path of
        Some h \<Rightarrow> Some h
      | None \<Rightarrow> map_option snd (longest (filter (\<lambda>e. isSubtreeMatch (fst e) path) mux)))"

definition NotFound :: HandlerFunc where
  \<comment> \<open>\<open>http.NotFound\<close>, the mux's answer when no pattern matches\<close>
  "NotFound w r world =
     \<lparr>finalWorld = world,
      response = Write (WriteHeader
        (Header_Set (Header_Set w ''Content-Type'' ''text/plain; charset=utf-8'')
           ''X-Content-Type-Options'' ''nosniff'') StatusNotFound)
        ''404 page not found\<newline>'',
      moveCalls = [], panicked = False\<rparr>"

datatype Served =
    BadRequest \<comment> \<open>the mux answered 400 itself; no handler ran\<close>
  | Redirect \<comment> \<open>the mux answered 301 itself; no handler ran\<close>
  | Handled Run

definition New ::
  "JSON \<Rightarrow> string \<Rightarrow> ref option \<Rightarrow> ref \<Rightarrow> int \<Rightarrow> MoveFunc \<Rightarrow> World
     \<Rightarrow> (BattlesnakeServer \<times> World) option" where
  \<comment> \<open>a nil \<open>info\<close> panics at the first statement: the result is \<open>None\<close>\<close>
  "New js port' info' logger' loggerOpts moveFunc' world =
     (case info' of
        None \<Rightarrow> None
      | Some p \<Rightarrow>
          let world1 = world\<lparr>infoCells := (infoCells world)
                         (p := (infoCells world p)\<lparr>APIVersion := apiVersion\<rparr>)\<rparr>;
              s = \<lparr>Handler = NewServeMux, port = port', info = p,
                   logger = NewLogger logger' loggerOpts, moveFunc = moveFunc'\<rparr>;
              r = NewServeMux;
              r = HandleFunc r ''/'' (withRequestLogging s (indexHandler js s));
              r = HandleFunc r ''/start'' (withRequestLogging s (startHandler js s));
              r = HandleFunc r ''/end'' (withRequestLogging s (endHandler js s));
              r = HandleFunc r ''/move'' (withRequestLogging s (moveHandler js s))
          in Some (s\<lparr>Handler := r\<rparr>, world1))"

definition ServeHTTP :: "BattlesnakeServer \<Rightarrow> ResponseWriter \<Rightarrow> Request \<Rightarrow> World \<Rightarrow> Served" where
  \<comment> \<open>the embedded \<open>http.Handler\<close>: the mux built by \<open>New\<close>\<close>
  "ServeHTTP s w r world =
     (if Target r = Asterisk then BadRequest
      else if Method r = ''CONNECT'' \<or> cleanPath (Path r) = Path r then
        (case match (Handler s) (Path r) of
           Some h \<Rightarrow> Handled (h w r world)
         | None \<Rightarrow> Handled (NotFound w r world))
      else Redirect)"

subsection \<open>Observing an exchange\<close>

fun status :: "Served \<Rightarrow> nat option" where
  \<comment> \<open>the status the client receives; none when the handler panicked\<close>
  "status BadRequest = Some StatusBadRequest"
| "status Redirect = Some StatusMovedPermanently"
| "status (Handled run) = (if panicked run then None else Some (StatusCode (response run)))"

fun answer :: "Served \<Rightarrow> nat + ResponseWriter \<times> bool" where
  \<comment> \<open>what the client can see: the status of the mux's own answer, or status, header and
     body of the handler's response and whether the handler panicked\<close>
  "answer BadRequest = Inl StatusBadRequest"
| "answer Redirect = Inl StatusMovedPermanently"
| "answer (Handled run) = Inr (response run, panicked run)"

fun logAfter :: "Served \<Rightarrow> World \<Rightarrow> ref \<Rightarrow> PrintfCall list" where
  \<comment> \<open>the output of a \<open>log.Logger\<close> after the exchange that started in the given store\<close>
  "logAfter BadRequest world = logOutput world"
| "logAfter Redirect world = logOutput world"
| "logAfter (Handled run) world = logOutput (finalWorld run)"

fun calls :: "Served \<Rightarrow> (GameState option \<times> Logger) list" where
  "calls BadRequest = []"
| "calls Redirect = []"
| "calls (Handled run) = moveCalls run"

fun sent :: "Served \<Rightarrow> string option" where
  \<comment> \<open>the body a handler wrote; none when the mux answered itself\<close>
  "sent BadRequest = None"
| "sent Redirect = None"
| "sent (Handled run) = Some (Written (response run))"

fun contentType :: "Served \<Rightarrow> string option" where
  \<comment> \<open>the content type a handler set, if a handler ran and set one\<close>
  "contentType BadRequest = None"
| "contentType Redirect = None"
| "contentType (Handled run) = Header_Get (response run) ''content-type''"

definition visible :: "Run \<Rightarrow> ResponseWriter \<times> bool \<times> (GameState option \<times> Logger) list" where
  \<comment> \<open>of a run, what does not concern the log\<close>
  "visible run = (response run, panicked run, moveCalls run)"

subsection \<open>Sample values\<close>

text \<open>
  Values for running the model: the zero \<open>GameState\<close> (what \<open>{}\<close> decodes to), the
  info record of the package's tests (with API version 7 in place of 1, to see it
  overwritten), the move function of the tests, and a codec that answers
  as encoding/json does on the bodies used below (\<open>{}\<close>, \<open>{invalid}\<close>, the empty body,
  a body whose transport breaks at once) and on strings that need no escaping; its
  error messages are shortened.
\<close>

definition zeroSnake :: Battlesnake where
  "zeroSnake =
     \<lparr>Battlesnake.ID = [], Battlesnake.Name = [], Health = 0, Battlesnake.Body = [],
      Battlesnake.Head = \<lparr>X = 0, Y = 0\<rparr>, Length = 0, Latency = [],
      Battlesnake.Shout = [], Battlesnake.Squad = [],
      Customizations = \<lparr>Customizations.Color = [], Customizations.Head = [],
                         Customizations.Tail = []\<rparr>\<rparr>"

definition zeroGameState :: GameState where
  "zeroGameState =
     \<lparr>Game = \<lparr>Game.ID = [],
               Ruleset = \<lparr>Ruleset.Name = [], Ruleset.Version = [],
                 Settings = \<lparr>FoodSpawnChance = 0, MinimumFood = 0, HazardDamagePerTurn = 0,
                   HazardMap = [], HazardMapAuthor = [],
                   Royale = \<lparr>ShrinkEveryNTurns = 0\<rparr>,
                   RulesetSettings.Squad = \<lparr>AllowBodyCollisions = False,
                     SharedElimination = False, SharedHealth = False, SharedLength = False\<rparr>\<rparr>\<rparr>,
               Map = [], Source = [], Timeout = 0\<rparr>,
      Turn = 0,
      Board = \<lparr>Height = 0, Width = 0, Food = [], Hazards = [], Snakes = []\<rparr>,
      You = zeroSnake\<rparr>"

fun sampleDecode :: "ReadCloser \<Rightarrow> string + GameState option" where
  "sampleDecode (Reader b (Some err)) = Inl err"
| "sampleDecode (Reader b None) =
     (if b = ''{}'' then Inr (Some zeroGameState)
      else if b = ''null'' then Inr None
      else if b = [] then Inl ''EOF''
      else Inl ''invalid character'')"

definition sampleEncodeInfo :: "InfoResponse \<Rightarrow> string + string" where
  "sampleEncodeInfo i =
     Inr (''{\"apiversion\":\"'' @ APIVersion i @ ''\",\"author\":\"'' @ Author i
          @ ''\",\"color\":\"'' @ InfoResponse.Color i @ ''\",\"head\":\"'' @ InfoResponse.Head i
          @ ''\",\"tail\":\"'' @ InfoResponse.Tail i @ ''\",\"version\":\"'' @ InfoResponse.Version i
          @ ''\"}\<newline>'')"

definition sampleEncodeMove :: "MoveResponse \<Rightarrow> string + string" where
  "sampleEncodeMove m =
     Inr (''{\"move\":\"'' @ Move m @ ''\",\"shout\":\"'' @ MoveResponse.Shout m @ ''\"}\<newline>'')"

definition sampleJSON :: JSON where
  "sampleJSON =
     \<lparr>Decode = sampleDecode, EncodeInfo = sampleEncodeInfo, EncodeMove = sampleEncodeMove\<rparr>"

definition failingJSON :: JSON where
  \<comment> \<open>a codec whose encoder returns an error\<close>
  "failingJSON =
     \<lparr>Decode = sampleDecode, EncodeInfo = (\<lambda>i. Inl ''unsupported value''),
      EncodeMove = (\<lambda>m. Inl ''unsupported value'')\<rparr>"

definition testInfo :: InfoResponse where
  "testInfo =
     \<lparr>APIVersion = ''7'', Author = ''foo'', InfoResponse.Color = ''#000000'',
      InfoResponse.Head = ''default'', InfoResponse.Tail = ''default'',
      InfoResponse.Version = ''9.9''\<rparr>"

definition testMove :: MoveFunc where
  "testMove gs l = (\<lparr>Move = ''up'', MoveResponse.Shout = ''Hi!''\<rparr>, [])"

definition world0 :: World where
  \<comment> \<open>the caller's info record and an empty \<open>log.Logger\<close>, both at reference 0\<close>
  "world0 = \<lparr>infoCells = (\<lambda>p. testInfo), logOutput = (\<lambda>p. [])\<rparr>"

definition testServer :: "JSON \<Rightarrow> int \<Rightarrow> BattlesnakeServer \<times> World" where
  \<comment> \<open>\<open>New("0", &info, logger, loggerOpts, moveFunc)\<close> as the tests call it\<close>
  "testServer js loggerOpts = the (New js ''0'' (Some 0) 0 loggerOpts testMove world0)"

definition request :: "string \<Rightarrow> string \<Rightarrow> string \<Rightarrow> Request" where
  "request method target b = \<lparr>Method = method, Target = URL target, Body = Reader b None\<rparr>"

subsection \<open>Notions used in the statements\<close>

definition routes :: "JSON \<Rightarrow> BattlesnakeServer \<Rightarrow> ServeMux" where
  \<comment> \<open>the four registrations that \<open>New\<close> makes\<close>
  "routes js s =
     [(''/'', withRequestLogging s (indexHandler js s)),
      (''/start'', withRequestLogging s (startHandler js s)),
      (''/end'', withRequestLogging s (endHandler js s)),
      (''/move'', withRequestLogging s (moveHandler js s))]"

definition ownOutput :: "MoveFunc \<Rightarrow> (GameState option \<times> Logger) list \<Rightarrow> PrintfCall list" where
  \<comment> \<open>what the move function itself printed in the given calls\<close>
  "ownOutput mf cs = concat (map (\<lambda>c. snd (mf (fst c) (snd c))) cs)"

section \<open>Auxiliary facts\<close>

lemma level_bits:
  "(m AND LError \<noteq> 0) = bit m 0" "(m AND LWarning \<noteq> 0) = bit m 1"
  "(m AND LInfo \<noteq> 0) = bit m 2" "(m AND LDebug \<noteq> 0) = bit m 3"
  using and_exp_eq_0_iff_not_bit[of m 0] and_exp_eq_0_iff_not_bit[of m 1]
        and_exp_eq_0_iff_not_bit[of m 2] and_exp_eq_0_iff_not_bit[of m 3]
  by (simp_all add: LError_def LWarning_def LInfo_def LDebug_def)

lemma level_values: "LError = 1" "LWarning = 2" "LInfo = 4" "LDebug = 8" "LDefault = 7"
  by (simp_all add: LError_def LWarning_def LInfo_def LDebug_def LDefault_def)

lemma bit_LDefault: "bit LDefault n = (n < 3)"
proof -
  have e: "LDefault = mask 3" by (simp add: level_values mask_eq_exp_minus_1)
  have "bit (mask 3 :: int) n = (n < 3)" by (simp only: bit_mask_iff) simp
  then show ?thesis by (simp only: e)
qed

lemma handler_field_irrelevant:
  "indexHandler js (s\<lparr>Handler := h\<rparr>) = indexHandler js s"
  "startHandler js (s\<lparr>Handler := h\<rparr>) = startHandler js s"
  "endHandler js (s\<lparr>Handler := h\<rparr>) = endHandler js s"
  "moveHandler js (s\<lparr>Handler := h\<rparr>) = moveHandler js s"
  "withRequestLogging (s\<lparr>Handler := h\<rparr>) = withRequestLogging s"
  by (simp_all add: fun_eq_iff indexHandler_def startHandler_def endHandler_def
        moveHandler_def withRequestLogging_def
        cong: sum.case_cong option.case_cong prod.case_cong)

lemma New_Some:
  assumes "New js port' (Some p) d m mf w0 = Some (s, w1)"
  shows "Handler s = routes js s"
    and "port s = port'" and "info s = p" and "logger s = NewLogger d m" and "moveFunc s = mf"
    and "w1 = w0\<lparr>infoCells := (infoCells w0)(p := (infoCells w0 p)\<lparr>APIVersion := ''1''\<rparr>)\<rparr>"
proof -
  define s0 where "s0 = \<lparr>Handler = NewServeMux, port = port', info = p,
                   logger = NewLogger d m, moveFunc = mf\<rparr>"
  from assms have s: "s = s0\<lparr>Handler := routes js s0\<rparr>"
    and w: "w1 = w0\<lparr>infoCells := (infoCells w0)(p := (infoCells w0 p)\<lparr>APIVersion := apiVersion\<rparr>)\<rparr>"
    by (simp_all add: New_def Let_def s0_def routes_def HandleFunc_def NewServeMux_def)
  show "Handler s = routes js s"
    unfolding s routes_def by (simp add: handler_field_irrelevant)
  show "port s = port'" "info s = p" "logger s = NewLogger d m" "moveFunc s = mf"
    by (simp_all add: s s0_def)
  show "w1 = w0\<lparr>infoCells := (infoCells w0)(p := (infoCells w0 p)\<lparr>APIVersion := ''1''\<rparr>)\<rparr>"
    using w by (simp add: apiVersion_def)
qed

lemma cleanPath_registered:
  "cleanPath ''/'' = ''/''" "cleanPath ''/start'' = ''/start''"
  "cleanPath ''/end'' = ''/end''" "cleanPath ''/move'' = ''/move''"
  by (simp_all add: cleanPath_def Clean_def)

lemma Path_update:
  "Path (r\<lparr>Body := rd\<rparr>) = Path r"
  "Method (r\<lparr>Body := rd\<rparr>) = Method r"
  by (simp_all add: Path_def)

lemma rooted_target: "take 1 (Path r) = ''/'' \<Longrightarrow> Target r = URL (Path r)"
  by (cases "Target r") (auto simp add: Path_def split: if_splits)

lemma URL_path: "Target r = URL p \<Longrightarrow> Path (r\<lparr>Method := me\<rparr>) = p"
  by (simp add: Path_def)

lemma cleanPath_rooted: "take 1 (cleanPath p) = ''/''"
  by (simp add: cleanPath_def Clean_def Let_def)

lemma canonical_target: "cleanPath (Path r) = Path r \<Longrightarrow> Target r = URL (Path r)"
  using cleanPath_rooted[of "Path r"] by (simp add: rooted_target)

lemma serve_registered:
  assumes "Handler s = routes js s"
  shows "Path r = ''/'' \<Longrightarrow> ServeHTTP s w r world = Handled (withRequestLogging s (indexHandler js s) w r world)"
    and "Path r = ''/start'' \<Longrightarrow> ServeHTTP s w r world = Handled (withRequestLogging s (startHandler js s) w r world)"
    and "Path r = ''/end'' \<Longrightarrow> ServeHTTP s w r world = Handled (withRequestLogging s (endHandler js s) w r world)"
    and "Path r = ''/move'' \<Longrightarrow> ServeHTTP s w r world = Handled (withRequestLogging s (moveHandler js s) w r world)"
  using rooted_target[of r]
  by (simp_all add: ServeHTTP_def assms routes_def match_def cleanPath_registered)

lemma Sprintf_literal_prefix:
  "CHR ''%'' \<notin> set p \<Longrightarrow> Sprintf (p @ f) v = map_option ((@) p) (Sprintf f v)"
proof (induction p)
  case Nil
  show ?case by (simp add: option.map_ident)
next
  case (Cons c p)
  then show ?case by (auto simp add: option.map_comp comp_def)
qed

lemma level_methods:
  "Err l f v world = (if bit (opts l) 0 then Printf l (''ERROR '' @ f) v world else world)"
  "Warn l f v world = (if bit (opts l) 1 then Printf l (''WARN '' @ f) v world else world)"
  "Info l f v world = (if bit (opts l) 2 then Printf l (''INFO '' @ f) v world else world)"
  "Debug l f v world = (if bit (opts l) 3 then Printf l (''DEBUG '' @ f) v world else world)"
  by (simp_all add: Err_def Warn_def Info_def Debug_def level_bits)

lemma Printf_effect:
  "logOutput (Printf l f v world) = (logOutput world)(log_Logger l := logOutput world (log_Logger l) @ [(f, v)])"
  "infoCells (Printf l f v world) = infoCells world"
  by (simp_all add: Printf_def)

lemma callerOutput_effect:
  "logOutput (callerOutput l cs world) = (logOutput world)(log_Logger l := logOutput world (log_Logger l) @ cs)"
  "infoCells (callerOutput l cs world) = infoCells world"
  "callerOutput l [] world = world"
  by (simp_all add: callerOutput_def)

lemma level_prefix_text:
  "lineText (''ERROR '' @ f, v) = map_option ((@) ''ERROR '') (lineText (f, v))"
  "lineText (''WARN '' @ f, v) = map_option ((@) ''WARN '') (lineText (f, v))"
  "lineText (''INFO '' @ f, v) = map_option ((@) ''INFO '') (lineText (f, v))"
  "lineText (''DEBUG '' @ f, v) = map_option ((@) ''DEBUG '') (lineText (f, v))"
  unfolding lineText_def fst_conv snd_conv
  by (rule Sprintf_literal_prefix, simp)+

lemma match_routes:
  "match (routes js s) path =
     (if path = ''/'' then Some (withRequestLogging s (indexHandler js s))
      else if path = ''/start'' then Some (withRequestLogging s (startHandler js s))
      else if path = ''/end'' then Some (withRequestLogging s (endHandler js s))
      else if path = ''/move'' then Some (withRequestLogging s (moveHandler js s))
      else if take 1 path = ''/'' then Some (withRequestLogging s (indexHandler js s))
      else None)"
  by (simp add: match_def routes_def isSubtreeMatch_def)

lemma middleware_complete_body:
  assumes "Body r = Reader b None"
  shows "withRequestLogging s next w r world =
         next w r (Debug (logger s) ''%s %s %s\<newline>'' [S (Method r), S (Path r), S b] world)"
proof (cases "bit (opts (logger s)) 3")
  case True
  have same: "r\<lparr>Body := Reader b None\<rparr> = r"
    using assms by simp
  from True show ?thesis
    by (simp add: withRequestLogging_def Enabled_def level_bits NopCloser_def NewBuffer_def
          assms same Path_update Let_def)
next
  case False
  then show ?thesis
    by (simp add: withRequestLogging_def Enabled_def level_bits level_methods)
qed

lemma middleware_broken_body:
  assumes "Body r = Reader b (Some err)"
  shows "withRequestLogging s next w r world =
         (if bit (opts (logger s)) 3 then
            \<lparr>finalWorld = Err (logger s) ''Failed to read request body: %s'' [E err] world,
             response = WriteHeader w StatusBadRequest, moveCalls = [], panicked = False\<rparr>
          else next w r world)"
  using assms by (simp add: withRequestLogging_def Enabled_def level_bits)

lemma middleware_off: "\<not> bit (opts (logger s)) 3 \<Longrightarrow> withRequestLogging s next = next"
  by (simp add: withRequestLogging_def Enabled_def level_bits)

lemma canonical_content_type:
  "CanonicalHeaderKey ''content-type'' = ''Content-Type''"
  "CanonicalHeaderKey ''Content-Type'' = ''Content-Type''"
  by (simp_all add: CanonicalHeaderKey_def validHeaderFieldByte_def toUpper_def toLower_def)

lemma recorder_written:
  "StatusCode (Write (Header_Set NewRecorder k v) bytes) = 200"
  "Written (Write (Header_Set NewRecorder k v) bytes) = bytes"
  "Header (Write (Header_Set NewRecorder k v) bytes) = [CanonicalHeaderKey k \<mapsto> v]"
  by (simp_all add: StatusCode_def Write_def Header_Set_def NewRecorder_def WriteHeader_def
        StatusOK_def Let_def)

lemma recorder_header_only:
  "StatusCode (WriteHeader NewRecorder code) = code"
  "Written (WriteHeader NewRecorder code) = []"
  "StatusCode (WriteHeader (Header_Set NewRecorder k v) code) = code"
  "Written (WriteHeader (Header_Set NewRecorder k v) code) = []"
  "StatusCode NewRecorder = 200"
  "Written NewRecorder = []"
  by (simp_all add: StatusCode_def Header_Set_def NewRecorder_def WriteHeader_def StatusOK_def)

lemma info_line_text:
  "lineText (''INFO Game ID %s [Turn %d] Snake ID %s - Start'', [S g, I t, S y]) =
     Some (''INFO Game ID '' @ g @ '' [Turn '' @ Itoa t @ ''] Snake ID '' @ y @ '' - Start'')"
  "lineText (''INFO Game ID %s [Turn %d] Snake ID %s - End'', [S g, I t, S y]) =
     Some (''INFO Game ID '' @ g @ '' [Turn '' @ Itoa t @ ''] Snake ID '' @ y @ '' - End'')"
  "lineText (''INFO Game ID %s [Turn %d] Snake ID %s - Move: %s'', [S g, I t, S y, S mv]) =
     Some (''INFO Game ID '' @ g @ '' [Turn '' @ Itoa t @ ''] Snake ID '' @ y @ '' - Move: '' @ mv)"
  by (simp_all add: lineText_def)

lemma debug_line_text:
  "lineText (''DEBUG %s %s %s\<newline>'', [S me, S pa, S b]) =
     Some (''DEBUG '' @ me @ '' '' @ pa @ '' '' @ b @ ''\<newline>'')"
  by (simp add: lineText_def)

lemma error_line_text:
  "lineText (''ERROR Failed to decode start request body: %s'', [E e]) =
     Some (''ERROR Failed to decode start request body: '' @ e)"
  "lineText (''ERROR Failed to decode end request body: %s'', [E e]) =
     Some (''ERROR Failed to decode end request body: '' @ e)"
  "lineText (''ERROR Failed to decode move request body: %s'', [E e]) =
     Some (''ERROR Failed to decode move request body: '' @ e)"
  by (simp_all add: lineText_def)

lemma startHandler_run:
  "Decode js (Body r) = Inl err \<Longrightarrow> startHandler js s w r world =
     \<lparr>finalWorld = Err (logger s) ''Failed to decode start request body: %s'' [E err] world,
      response = WriteHeader w StatusBadRequest, moveCalls = [], panicked = False\<rparr>"
  "Decode js (Body r) = Inr None \<Longrightarrow> startHandler js s w r world =
     \<lparr>finalWorld = world, response = w, moveCalls = [], panicked = True\<rparr>"
  "Decode js (Body r) = Inr (Some st) \<Longrightarrow> startHandler js s w r world =
     \<lparr>finalWorld = Info (logger s) ''Game ID %s [Turn %d] Snake ID %s - Start''
        [S (Game.ID (Game st)), I (Turn st), S (Battlesnake.ID (You st))] world,
      response = w, moveCalls = [], panicked = False\<rparr>"
  by (simp_all add: startHandler_def)

lemma endHandler_run:
  "Decode js (Body r) = Inl err \<Longrightarrow> endHandler js s w r world =
     \<lparr>finalWorld = Err (logger s) ''Failed to decode end request body: %s'' [E err] world,
      response = WriteHeader w StatusBadRequest, moveCalls = [], panicked = False\<rparr>"
  "Decode js (Body r) = Inr None \<Longrightarrow> endHandler js s w r world =
     \<lparr>finalWorld = world, response = w, moveCalls = [], panicked = True\<rparr>"
  "Decode js (Body r) = Inr (Some st) \<Longrightarrow> endHandler js s w r world =
     \<lparr>finalWorld = Info (logger s) ''Game ID %s [Turn %d] Snake ID %s - End''
        [S (Game.ID (Game st)), I (Turn st), S (Battlesnake.ID (You st))] world,
      response = w, moveCalls = [], panicked = False\<rparr>"
  by (simp_all add: endHandler_def)

lemma moveHandler_run:
  "Decode js (Body r) = Inl err \<Longrightarrow> moveHandler js s w r world =
     \<lparr>finalWorld = Err (logger s) ''Failed to decode move request body: %s'' [E err] world,
      response = WriteHeader w StatusBadRequest, moveCalls = [], panicked = False\<rparr>"
  "Decode js (Body r) = Inr (Some st) \<Longrightarrow> moveFunc s (Some st) (logger s) = (resp, printed)
     \<Longrightarrow> EncodeMove js resp = Inr bytes \<Longrightarrow> moveHandler js s w r world =
     \<lparr>finalWorld = Info (logger s) ''Game ID %s [Turn %d] Snake ID %s - Move: %s''
        [S (Game.ID (Game st)), I (Turn st), S (Battlesnake.ID (You st)), S (Move resp)]
        (callerOutput (logger s) printed world),
      response = Write (Header_Set w ''Content-Type'' ''application/json'') bytes,
      moveCalls = [(Some st, logger s)], panicked = False\<rparr>"
  "Decode js (Body r) = Inr state \<Longrightarrow> moveFunc s state (logger s) = (resp, printed)
     \<Longrightarrow> EncodeMove js resp = Inl err \<Longrightarrow> moveHandler js s w r world =
     \<lparr>finalWorld = Err (logger s) ''Failed to encode move response, %s'' [E err]
        (callerOutput (logger s) printed world),
      response = WriteHeader (Header_Set w ''Content-Type'' ''application/json'')
        StatusInternalServerError,
      moveCalls = [(state, logger s)], panicked = False\<rparr>"
  "Decode js (Body r) = Inr None \<Longrightarrow> moveFunc s None (logger s) = (resp, printed)
     \<Longrightarrow> EncodeMove js resp = Inr bytes \<Longrightarrow> moveHandler js s w r world =
     \<lparr>finalWorld = callerOutput (logger s) printed world,
      response = Write (Header_Set w ''Content-Type'' ''application/json'') bytes,
      moveCalls = [(None, logger s)], panicked = True\<rparr>"
  by (simp_all add: moveHandler_def Encode_def)

lemma indexHandler_run:
  "Path r \<noteq> ''/'' \<Longrightarrow> indexHandler js s w r world =
     \<lparr>finalWorld = world, response = WriteHeader w StatusNotFound,
      moveCalls = [], panicked = False\<rparr>"
  "Path r = ''/'' \<Longrightarrow> EncodeInfo js (infoCells world (info s)) = Inr bytes \<Longrightarrow>
   indexHandler js s w r world =
     \<lparr>finalWorld = world,
      response = Write (Header_Set w ''content-type'' ''application/json'') bytes,
      moveCalls = [], panicked = False\<rparr>"
  "Path r = ''/'' \<Longrightarrow> EncodeInfo js (infoCells world (info s)) = Inl err \<Longrightarrow>
   indexHandler js s w r world =
     \<lparr>finalWorld = Err (logger s) ''Failed to encode index response: %s'' [E err] world,
      response = WriteHeader (Header_Set w ''content-type'' ''application/json'')
        StatusInternalServerError,
      moveCalls = [], panicked = False\<rparr>"
  by (simp_all add: indexHandler_def Encode_def)

lemma served_cases:
  assumes "Handler s = routes js s"
  shows "ServeHTTP s w r world = BadRequest
       \<or> ServeHTTP s w r world = Redirect
       \<or> ServeHTTP s w r world = Handled (NotFound w r world)
       \<or> ServeHTTP s w r world = Handled (withRequestLogging s (indexHandler js s) w r world)
       \<or> ServeHTTP s w r world = Handled (withRequestLogging s (startHandler js s) w r world)
       \<or> ServeHTTP s w r world = Handled (withRequestLogging s (endHandler js s) w r world)
       \<or> ServeHTTP s w r world = Handled (withRequestLogging s (moveHandler js s) w r world)"
  by (simp add: ServeHTTP_def assms match_routes)

lemma silent_levels:
  "opts l = 0 \<Longrightarrow> Err l f v world = world"
  "opts l = 0 \<Longrightarrow> Warn l f v world = world"
  "opts l = 0 \<Longrightarrow> Info l f v world = world"
  "opts l = 0 \<Longrightarrow> Debug l f v world = world"
  by (simp_all add: level_methods)

lemma silent_handlers:
  assumes "opts (logger s) = 0"
  shows "finalWorld (indexHandler js s w r world) =
           callerOutput (logger s) (ownOutput (moveFunc s) (moveCalls (indexHandler js s w r world))) world"
    and "finalWorld (startHandler js s w r world) =
           callerOutput (logger s) (ownOutput (moveFunc s) (moveCalls (startHandler js s w r world))) world"
    and "finalWorld (endHandler js s w r world) =
           callerOutput (logger s) (ownOutput (moveFunc s) (moveCalls (endHandler js s w r world))) world"
    and "finalWorld (moveHandler js s w r world) =
           callerOutput (logger s) (ownOutput (moveFunc s) (moveCalls (moveHandler js s w r world))) world"
    and "finalWorld (NotFound w r world) =
           callerOutput (logger s) (ownOutput (moveFunc s) (moveCalls (NotFound w r world))) world"
  using assms
  by (simp_all add: indexHandler_def startHandler_def endHandler_def moveHandler_def NotFound_def
        silent_levels callerOutput_effect ownOutput_def Let_def
        split: sum.splits option.splits prod.splits)

lemma silent_server:
  assumes "Handler s = routes js s" and "opts (logger s) = 0"
  shows "logAfter (ServeHTTP s w r world) world =
         logOutput (callerOutput (logger s) (ownOutput (moveFunc s) (calls (ServeHTTP s w r world))) world)"
proof -
  have off: "withRequestLogging s h = h" for h
    by (rule middleware_off) (simp add: assms(2))
  from served_cases[OF assms(1), of w r world] show ?thesis
    by (elim disjE) (simp_all add: off silent_handlers[OF assms(2)] callerOutput_effect ownOutput_def)
qed

lemma testServer_New:
  "New js ''0'' (Some 0) 0 m testMove world0 = Some (testServer js m)"
  by (unfold testServer_def) (simp add: New_def Let_def)

lemma testServer_New':
  "New js ''0'' (Some 0) 0 m testMove world0 = Some (fst (testServer js m), snd (testServer js m))"
  by (simp only: testServer_New prod.collapse)

lemma testServer_facts:
  "Handler (fst (testServer js m)) = routes js (fst (testServer js m))"
  "logger (fst (testServer js m)) = NewLogger 0 m"
  "opts (logger (fst (testServer js m))) = m"
  "log_Logger (logger (fst (testServer js m))) = 0"
  "info (fst (testServer js m)) = 0"
  "moveFunc (fst (testServer js m)) = testMove"
  "logOutput (snd (testServer js m)) = (\<lambda>d. [])"
  "infoCells (snd (testServer js m)) 0 = testInfo\<lparr>APIVersion := ''1''\<rparr>"
  using New_Some[OF testServer_New', of js m]
  by (simp_all add: world0_def NewLogger_def)

lemma sample_decode:
  "Decode sampleJSON (Reader ''{}'' None) = Inr (Some zeroGameState)"
  "Decode sampleJSON (Reader ''{invalid}'' None) = Inl ''invalid character''"
  "Decode sampleJSON (Reader [] None) = Inl ''EOF''"
  "Decode sampleJSON (Reader ''null'' None) = Inr None"
  "Decode failingJSON (Reader ''{}'' None) = Inr (Some zeroGameState)"
  "Body (request me pa b) = Reader b None"
  "Path (request me pa b) = pa"
  "Method (request me pa b) = me"
  by (simp_all add: sampleJSON_def failingJSON_def request_def Path_def)

lemma NewLogger_fields:
  "opts (NewLogger d m) = m" "log_Logger (NewLogger d m) = d"
  by (simp_all add: NewLogger_def)

lemma middleware_request:
  "withRequestLogging s next w (request me pa b) world =
   next w (request me pa b) (Debug (logger s) ''%s %s %s\<newline>'' [S me, S pa, S b] world)"
  using middleware_complete_body[of "request me pa b" b s "next" w world]
  by (simp add: request_def Path_def)

lemma test_start_invalid:
  "ServeHTTP (fst (testServer sampleJSON 0)) NewRecorder (request ''POST'' ''/start'' ''{invalid}'')
     (snd (testServer sampleJSON 0)) =
   Handled \<lparr>finalWorld = snd (testServer sampleJSON 0),
            response = WriteHeader NewRecorder StatusBadRequest, moveCalls = [], panicked = False\<rparr>"
  by (simp add: serve_registered(2)[OF testServer_facts(1)] sample_decode
        middleware_request testServer_facts startHandler_def silent_levels NewLogger_fields)

lemma test_move_unencodable:
  "ServeHTTP (fst (testServer failingJSON 0)) NewRecorder (request ''POST'' ''/move'' ''{}'')
     (snd (testServer failingJSON 0)) =
   Handled \<lparr>finalWorld = snd (testServer failingJSON 0),
            response = WriteHeader (Header_Set NewRecorder ''Content-Type'' ''application/json'')
               StatusInternalServerError,
            moveCalls = [(Some zeroGameState, NewLogger 0 0)], panicked = False\<rparr>"
  by (simp add: serve_registered(4)[OF testServer_facts(1)] sample_decode
        middleware_request testServer_facts silent_levels callerOutput_effect NewLogger_fields
        moveHandler_run(3)[where resp="\<lparr>Move = ''up'', MoveResponse.Shout = ''Hi!''\<rparr>" and printed="[]" and err="''unsupported value''"]
        testMove_def failingJSON_def)

lemma level_log:
  "logOutput (Err l f v world) d =
     logOutput world d @ (if opts l AND LError \<noteq> 0 \<and> d = log_Logger l then [(''ERROR '' @ f, v)] else [])"
  "logOutput (Warn l f v world) d =
     logOutput world d @ (if opts l AND LWarning \<noteq> 0 \<and> d = log_Logger l then [(''WARN '' @ f, v)] else [])"
  "logOutput (Info l f v world) d =
     logOutput world d @ (if opts l AND LInfo \<noteq> 0 \<and> d = log_Logger l then [(''INFO '' @ f, v)] else [])"
  "logOutput (Debug l f v world) d =
     logOutput world d @ (if opts l AND LDebug \<noteq> 0 \<and> d = log_Logger l then [(''DEBUG '' @ f, v)] else [])"
  by (simp_all add: Err_def Warn_def Info_def Debug_def Printf_def)

lemma level_cells:
  "infoCells (Err l f v world) = infoCells world"
  "infoCells (Warn l f v world) = infoCells world"
  "infoCells (Info l f v world) = infoCells world"
  "infoCells (Debug l f v world) = infoCells world"
  by (simp_all add: Err_def Warn_def Info_def Debug_def Printf_def)

lemma callerOutput_log:
  "logOutput (callerOutput l cs world) d =
     logOutput world d @ (if d = log_Logger l then cs else [])"
  by (simp add: callerOutput_def)

lemma handlers_append:
  "\<exists>rest. logOutput (finalWorld (indexHandler js s w r world)) d = logOutput world d @ rest"
  "\<exists>rest. logOutput (finalWorld (startHandler js s w r world)) d = logOutput world d @ rest"
  "\<exists>rest. logOutput (finalWorld (endHandler js s w r world)) d = logOutput world d @ rest"
  "\<exists>rest. logOutput (finalWorld (moveHandler js s w r world)) d = logOutput world d @ rest"
  by (simp_all add: indexHandler_def startHandler_def endHandler_def moveHandler_def
        level_log callerOutput_log Let_def
        split: sum.splits option.splits prod.splits)

lemma handlers_visible:
  assumes "Path r' = Path r" and "Body r' = Body r" and "infoCells world' = infoCells world"
  shows "visible (indexHandler js s w r' world') = visible (indexHandler js s w r world)"
    and "visible (startHandler js s w r' world') = visible (startHandler js s w r world)"
    and "visible (endHandler js s w r' world') = visible (endHandler js s w r world)"
    and "visible (moveHandler js s w r' world') = visible (moveHandler js s w r world)"
  using assms
  by (simp_all add: indexHandler_def startHandler_def endHandler_def moveHandler_def visible_def
        Let_def split: sum.splits option.splits prod.splits)

lemma middleware_visible:
  assumes h: "\<And>r r' world world'. Path r' = Path r \<Longrightarrow> Body r' = Body r \<Longrightarrow>
                infoCells world' = infoCells world \<Longrightarrow>
                visible (h w r' world') = visible (h w r world)"
    and "Path r' = Path r" and "Body r' = Body r"
  shows "visible (withRequestLogging s h w r' world) = visible (withRequestLogging s h w r world)"
proof (cases "Body r")
  case (Reader b e)
  show ?thesis
  proof (cases e)
    case None
    with Reader assms(3) have b: "Body r = Reader b None" "Body r' = Reader b None"
      by simp_all
    show ?thesis
      unfolding middleware_complete_body[OF b(1)] middleware_complete_body[OF b(2)]
      by (rule h) (simp_all add: assms level_cells)
  next
    case (Some err)
    with Reader assms(3) have b: "Body r = Reader b (Some err)" "Body r' = Reader b (Some err)"
      by simp_all
    show ?thesis
      unfolding middleware_broken_body[OF b(1)] middleware_broken_body[OF b(2)]
      using h[OF assms(2,3) refl, of world] by (simp add: visible_def)
  qed
qed

lemma level_log_fun:
  "logOutput (Err l f v world) = (logOutput world)(log_Logger l := logOutput world (log_Logger l)
      @ (if opts l AND LError \<noteq> 0 then [(''ERROR '' @ f, v)] else []))"
  "logOutput (Info l f v world) = (logOutput world)(log_Logger l := logOutput world (log_Logger l)
      @ (if opts l AND LInfo \<noteq> 0 then [(''INFO '' @ f, v)] else []))"
  "logOutput (Debug l f v world) = (logOutput world)(log_Logger l := logOutput world (log_Logger l)
      @ (if opts l AND LDebug \<noteq> 0 then [(''DEBUG '' @ f, v)] else []))"
  by (simp_all add: fun_eq_iff level_log)

lemma serve_complete:
  assumes "New js port' (Some p) d m mf w0 = Some (s, w1)" and "Body r = Reader b None"
  shows "Path r = ''/'' \<Longrightarrow> ServeHTTP s w r world = Handled (indexHandler js s w r
           (Debug (NewLogger d m) ''%s %s %s\<newline>'' [S (Method r), S (Path r), S b] world))"
    and "Path r = ''/start'' \<Longrightarrow> ServeHTTP s w r world = Handled (startHandler js s w r
           (Debug (NewLogger d m) ''%s %s %s\<newline>'' [S (Method r), S (Path r), S b] world))"
    and "Path r = ''/end'' \<Longrightarrow> ServeHTTP s w r world = Handled (endHandler js s w r
           (Debug (NewLogger d m) ''%s %s %s\<newline>'' [S (Method r), S (Path r), S b] world))"
    and "Path r = ''/move'' \<Longrightarrow> ServeHTTP s w r world = Handled (moveHandler js s w r
           (Debug (NewLogger d m) ''%s %s %s\<newline>'' [S (Method r), S (Path r), S b] world))"
  using serve_registered[OF New_Some(1)[OF assms(1)], of r w world]
    New_Some(4)[OF assms(1)]
  by (simp_all add: middleware_complete_body[OF assms(2)])

lemma serve_unregistered:
  assumes "Handler s = routes js s"
    and "Path r \<notin> {''/'', ''/start'', ''/end'', ''/move''}"
    and "cleanPath (Path r) = Path r"
  shows "ServeHTTP s w r world = Handled (withRequestLogging s (indexHandler js s) w r world)"
  using assms canonical_target[OF assms(3)] cleanPath_rooted[of "Path r"]
  by (simp add: ServeHTTP_def match_routes)

lemma serve_canonical:
  assumes "Handler s = routes js s" and "cleanPath (Path r) = Path r"
  shows "\<exists>h \<in> {indexHandler js s, startHandler js s, endHandler js s, moveHandler js s}.
           ServeHTTP s w r world = Handled (withRequestLogging s h w r world)"
  using assms canonical_target[OF assms(2)] cleanPath_rooted[of "Path r"]
  by (simp add: ServeHTTP_def match_routes)

lemma testMove_result:
  "testMove st l = (\<lparr>Move = ''up'', MoveResponse.Shout = ''Hi!''\<rparr>, [])"
  by (simp add: testMove_def)

lemma sample_encode_up:
  "EncodeMove sampleJSON \<lparr>Move = ''up'', MoveResponse.Shout = ''Hi!''\<rparr> =
     Inr ''{\"move\":\"up\",\"shout\":\"Hi!\"}\<newline>''"
  "EncodeMove failingJSON resp = Inl ''unsupported value''"
  "EncodeInfo sampleJSON (testInfo\<lparr>APIVersion := ''1''\<rparr>) =
     Inr ''{\"apiversion\":\"1\",\"author\":\"foo\",\"color\":\"#000000\",\"head\":\"default\",\"tail\":\"default\",\"version\":\"9.9\"}\<newline>''"
  by (simp_all add: sampleJSON_def failingJSON_def sampleEncodeMove_def sampleEncodeInfo_def
        testInfo_def)

lemma zero_ids:
  "Game.ID (Game zeroGameState) = []" "Turn zeroGameState = 0"
  "Battlesnake.ID (You zeroGameState) = []"
  by (simp_all add: zeroGameState_def zeroSnake_def)

lemma world0_log: "logOutput (snd (testServer js m)) d = []"
  by (simp add: testServer_facts)

lemma test_runs_mask_zero:
  "ServeHTTP (fst (testServer sampleJSON 0)) NewRecorder (request me ''/start'' ''{}'')
     (snd (testServer sampleJSON 0)) =
   Handled \<lparr>finalWorld = snd (testServer sampleJSON 0), response = NewRecorder,
            moveCalls = [], panicked = False\<rparr>"
  "ServeHTTP (fst (testServer sampleJSON 0)) NewRecorder (request me ''/start'' [])
     (snd (testServer sampleJSON 0)) =
   Handled \<lparr>finalWorld = snd (testServer sampleJSON 0),
            response = WriteHeader NewRecorder StatusBadRequest, moveCalls = [], panicked = False\<rparr>"
  "ServeHTTP (fst (testServer sampleJSON 0)) NewRecorder (request me ''/move'' ''{}'')
     (snd (testServer sampleJSON 0)) =
   Handled \<lparr>finalWorld = snd (testServer sampleJSON 0),
            response = Write (Header_Set NewRecorder ''Content-Type'' ''application/json'')
              ''{\"move\":\"up\",\"shout\":\"Hi!\"}\<newline>'',
            moveCalls = [(Some zeroGameState, NewLogger 0 0)], panicked = False\<rparr>"
  by (simp_all add: serve_complete[OF testServer_New' sample_decode(6)] sample_decode
        startHandler_def moveHandler_def Encode_def testMove_result sample_encode_up
        testServer_facts silent_levels NewLogger_fields callerOutput_effect)

section \<open>The claims\<close>

text \<open>
  C1 does not hold as stated: the info line is written only when the info bit is set
  in the logger mask.  On the server of the tests (mask 0) a move request with a valid
  body is answered 200 with the encoded move, and nothing is logged.
\<close>

theorem move_silent_at_mask_zero:
  "Decode sampleJSON (Reader ''{}'' None) = Inr (Some zeroGameState)
   \<and> status (ServeHTTP (fst (testServer sampleJSON 0)) NewRecorder
        (request ''POST'' ''/move'' ''{}'') (snd (testServer sampleJSON 0))) = Some 200
   \<and> sent (ServeHTTP (fst (testServer sampleJSON 0)) NewRecorder
        (request ''POST'' ''/move'' ''{}'') (snd (testServer sampleJSON 0)))
      = Some ''{\"move\":\"up\",\"shout\":\"Hi!\"}\<newline>''
   \<and> logAfter (ServeHTTP (fst (testServer sampleJSON 0)) NewRecorder
        (request ''POST'' ''/move'' ''{}'') (snd (testServer sampleJSON 0)))
        (snd (testServer sampleJSON 0)) = (\<lambda>d. [])"
  by (simp add: test_runs_mask_zero(3) sample_decode recorder_written testServer_facts)

text \<open>
  C1, amended.  For a request to \<open>/move\<close> whose body is read without error and decodes
  to a game state, the handler calls the move function exactly once, with the decoded
  state and the server's logger.  If the answer encodes, the response is 200 with
  content type \<open>application/json\<close> and a body that is exactly the encoder's output for
  the answer, and afterwards, when the info bit is set in the mask, one info line is
  written whose text ends in \<open>- Move: \<close> and the move; when the info bit is not set no
  such line is written.  If the encoder fails, the response is 500 with an empty body.
  The log receives, in this order: the debug line of the middleware (debug bit), what the
  move function printed, and then the info line (info bit) or, on an encoding failure,
  the error line (error bit).
\<close>

theorem move_route:
  assumes "New js port' (Some p) d m mf w0 = Some (s, w1)"
    and "Path r = ''/move''" and "Body r = Reader b None"
    and "Decode js (Reader b None) = Inr (Some st)"
    and "mf (Some st) (NewLogger d m) = (resp, printed)"
  shows "\<exists>run. ServeHTTP s NewRecorder r world = Handled run
           \<and> \<not> panicked run
           \<and> logger s = NewLogger d m
           \<and> moveCalls run = [(Some st, logger s)]
           \<and> infoCells (finalWorld run) = infoCells world
           \<and> (case EncodeMove js resp of
                Inr bytes \<Rightarrow>
                  StatusCode (response run) = 200
                  \<and> Header_Get (response run) ''content-type'' = Some ''application/json''
                  \<and> Written (response run) = bytes
                  \<and> logOutput (finalWorld run) = (logOutput world)(d := logOutput world d
                      @ (if m AND LDebug \<noteq> 0
                         then [(''DEBUG %s %s %s\<newline>'', [S (Method r), S (Path r), S b])]
                         else [])
                      @ printed
                      @ (if m AND LInfo \<noteq> 0
                         then [(''INFO Game ID %s [Turn %d] Snake ID %s - Move: %s'',
                                [S (Game.ID (Game st)), I (Turn st), S (Battlesnake.ID (You st)),
                                 S (Move resp)])]
                         else []))
              | Inl err \<Rightarrow>
                  StatusCode (response run) = 500
                  \<and> Written (response run) = []
                  \<and> logOutput (finalWorld run) = (logOutput world)(d := logOutput world d
                      @ (if m AND LDebug \<noteq> 0
                         then [(''DEBUG %s %s %s\<newline>'', [S (Method r), S (Path r), S b])]
                         else [])
                      @ printed
                      @ (if m AND LError \<noteq> 0
                         then [(''ERROR Failed to encode move response, %s'', [E err])]
                         else [])))
           \<and> lineText (''INFO Game ID %s [Turn %d] Snake ID %s - Move: %s'',
                [S (Game.ID (Game st)), I (Turn st), S (Battlesnake.ID (You st)), S (Move resp)]) =
               Some (''INFO Game ID '' @ Game.ID (Game st) @ '' [Turn '' @ Itoa (Turn st)
                     @ ''] Snake ID '' @ Battlesnake.ID (You st) @ '' - Move: '' @ Move resp)"
proof -
  note n = New_Some[OF assms(1)]
  have dec: "Decode js (Body r) = Inr (Some st)"
    using assms(3,4) by simp
  have mv: "moveFunc s (Some st) (logger s) = (resp, printed)"
    by (simp add: n assms(5))
  show ?thesis
  proof (cases "EncodeMove js resp")
    case (Inr bytes)
    show ?thesis
      unfolding serve_complete(4)[OF assms(1,3,2)] moveHandler_run(2)[OF dec mv Inr]
      by (simp add: Inr n(4) NewLogger_fields level_log_fun level_cells callerOutput_effect
            recorder_written Header_Get_def canonical_content_type info_line_text)
  next
    case (Inl err)
    show ?thesis
      unfolding serve_complete(4)[OF assms(1,3,2)] moveHandler_run(3)[OF dec mv Inl]
      by (simp add: Inl n(4) NewLogger_fields level_log_fun level_cells callerOutput_effect
            recorder_header_only StatusInternalServerError_def info_line_text)
  qed
qed

text \<open>
  The theorem at work with the default mask: the move of the tests is answered 200 with
  its JSON text and one info line; with an encoder that fails the answer is 500 and
  one error line.
\<close>

theorem move_route_witness:
  "New sampleJSON ''0'' (Some 0) 0 LDefault testMove world0 = Some (testServer sampleJSON LDefault)
   \<and> Decode sampleJSON (Reader ''{}'' None) = Inr (Some zeroGameState)
   \<and> status (ServeHTTP (fst (testServer sampleJSON LDefault)) NewRecorder
        (request ''POST'' ''/move'' ''{}'') (snd (testServer sampleJSON LDefault))) = Some 200
   \<and> contentType (ServeHTTP (fst (testServer sampleJSON LDefault)) NewRecorder
        (request ''POST'' ''/move'' ''{}'') (snd (testServer sampleJSON LDefault)))
      = Some ''application/json''
   \<and> sent (ServeHTTP (fst (testServer sampleJSON LDefault)) NewRecorder
        (request ''POST'' ''/move'' ''{}'') (snd (testServer sampleJSON LDefault)))
      = Some ''{\"move\":\"up\",\"shout\":\"Hi!\"}\<newline>''
   \<and> calls (ServeHTTP (fst (testServer sampleJSON LDefault)) NewRecorder
        (request ''POST'' ''/move'' ''{}'') (snd (testServer sampleJSON LDefault)))
      = [(Some zeroGameState, NewLogger 0 LDefault)]
   \<and> map lineText (logAfter (ServeHTTP (fst (testServer sampleJSON LDefault)) NewRecorder
        (request ''POST'' ''/move'' ''{}'') (snd (testServer sampleJSON LDefault)))
        (snd (testServer sampleJSON LDefault)) 0)
      = [Some ''INFO Game ID  [Turn 0] Snake ID  - Move: up'']
   \<and> status (ServeHTTP (fst (testServer failingJSON LDefault)) NewRecorder
        (request ''POST'' ''/move'' ''{}'') (snd (testServer failingJSON LDefault))) = Some 500
   \<and> map lineText (logAfter (ServeHTTP (fst (testServer failingJSON LDefault)) NewRecorder
        (request ''POST'' ''/move'' ''{}'') (snd (testServer failingJSON LDefault)))
        (snd (testServer failingJSON LDefault)) 0)
      = [Some ''ERROR Failed to encode move response, unsupported value'']"
proof -
  let ?r = "request ''POST'' ''/move'' ''{}''"
  have bits: "LDefault AND LDebug = 0" "LDefault AND LInfo \<noteq> 0" "LDefault AND LError \<noteq> 0"
    by (simp_all add: level_values)
  from move_route[where r="?r" and world="snd (testServer sampleJSON LDefault)",
      OF testServer_New'[of sampleJSON LDefault] sample_decode(7) sample_decode(6)
        sample_decode(1) testMove_result]
  obtain run where run: "ServeHTTP (fst (testServer sampleJSON LDefault)) NewRecorder ?r
        (snd (testServer sampleJSON LDefault)) = Handled run"
    and ok: "\<not> panicked run" "StatusCode (response run) = 200"
      "Header_Get (response run) ''content-type'' = Some ''application/json''"
      "Written (response run) = ''{\"move\":\"up\",\"shout\":\"Hi!\"}\<newline>''"
      "moveCalls run = [(Some zeroGameState, NewLogger 0 LDefault)]"
      "logOutput (finalWorld run) 0 =
         [(''INFO Game ID %s [Turn %d] Snake ID %s - Move: %s'', [S [], I 0, S [], S ''up''])]"
    by (auto simp add: sample_encode_up bits sample_decode zero_ids world0_log)
  from move_route[where r="?r" and world="snd (testServer failingJSON LDefault)",
      OF testServer_New'[of failingJSON LDefault] sample_decode(7) sample_decode(6)
        sample_decode(5) testMove_result]
  obtain run' where run': "ServeHTTP (fst (testServer failingJSON LDefault)) NewRecorder ?r
        (snd (testServer failingJSON LDefault)) = Handled run'"
    and ko: "\<not> panicked run'" "StatusCode (response run') = 500"
      "logOutput (finalWorld run') 0 =
         [(''ERROR Failed to encode move response, %s'', [E ''unsupported value''])]"
    by (auto simp add: sample_encode_up bits sample_decode world0_log)
  show ?thesis
    by (simp add: run run' ok ko testServer_New sample_decode lineText_def Itoa_def)
qed

text \<open>
  C2 does not hold as stated: the error line is written only when the error bit is set
  in the logger mask.  On the server of the tests (mask 0) a start request with the
  body \<open>{invalid}\<close> is answered 400 and nothing is logged.
\<close>

theorem decode_failure_silent_at_mask_zero:
  "Decode sampleJSON (Reader ''{invalid}'' None) = Inl ''invalid character''
   \<and> status (ServeHTTP (fst (testServer sampleJSON 0)) NewRecorder
        (request ''POST'' ''/start'' ''{invalid}'') (snd (testServer sampleJSON 0))) = Some 400
   \<and> logAfter (ServeHTTP (fst (testServer sampleJSON 0)) NewRecorder
        (request ''POST'' ''/start'' ''{invalid}'') (snd (testServer sampleJSON 0)))
        (snd (testServer sampleJSON 0)) = (\<lambda>d. [])"
  by (simp add: test_start_invalid sample_decode recorder_header_only testServer_facts
        StatusBadRequest_def)

text \<open>
  C2, amended.  For a request to \<open>/start\<close>, \<open>/end\<close> or \<open>/move\<close> whose body is read
  without error and fails to decode, the response is 400 with an empty body and the move
  function is not called.  When the error bit is set in the mask, one error line
  describing the decode failure is written (after the middleware's debug line, if the
  debug bit is set); when the error bit is not set, no error line is written.
\<close>

theorem decode_failure:
  assumes "New js port' (Some p) d m mf w0 = Some (s, w1)"
    and "Path r \<in> {''/start'', ''/end'', ''/move''}"
    and "Body r = Reader b None"
    and "Decode js (Reader b None) = Inl err"
  shows "\<exists>run. ServeHTTP s NewRecorder r world = Handled run
           \<and> \<not> panicked run \<and> moveCalls run = []
           \<and> StatusCode (response run) = 400 \<and> Written (response run) = []
           \<and> infoCells (finalWorld run) = infoCells world
           \<and> logOutput (finalWorld run) = (logOutput world)(d := logOutput world d
               @ (if m AND LDebug \<noteq> 0
                  then [(''DEBUG %s %s %s\<newline>'', [S (Method r), S (Path r), S b])] else [])
               @ (if m AND LError \<noteq> 0
                  then [(''ERROR Failed to decode '' @ tl (Path r) @ '' request body: %s'', [E err])]
                  else []))
           \<and> lineText (''ERROR Failed to decode '' @ tl (Path r) @ '' request body: %s'', [E err]) =
               Some (''ERROR Failed to decode '' @ tl (Path r) @ '' request body: '' @ err)"
proof -
  note lg = New_Some(4)[OF assms(1)]
  have dec: "Decode js (Body r) = Inl err"
    using assms(3,4) by simp
  from assms(2) consider "Path r = ''/start''" | "Path r = ''/end''" | "Path r = ''/move''"
    by auto
  then show ?thesis
  proof cases
    case 1
    show ?thesis
      unfolding serve_complete(2)[OF assms(1,3) 1] startHandler_run(1)[OF dec]
      by (simp add: 1 lg NewLogger_fields level_log_fun level_cells recorder_header_only
            error_line_text StatusBadRequest_def)
  next
    case 2
    show ?thesis
      unfolding serve_complete(3)[OF assms(1,3) 2] endHandler_run(1)[OF dec]
      by (simp add: 2 lg NewLogger_fields level_log_fun level_cells recorder_header_only
            error_line_text StatusBadRequest_def)
  next
    case 3
    show ?thesis
      unfolding serve_complete(4)[OF assms(1,3) 3] moveHandler_run(1)[OF dec]
      by (simp add: 3 lg NewLogger_fields level_log_fun level_cells recorder_header_only
            error_line_text StatusBadRequest_def)
  qed
qed

text \<open>
  The theorem at work with the default mask: a move request with the body \<open>{invalid}\<close>
  is answered 400, the move function is not called, and one error line is written.
\<close>

theorem decode_failure_witness:
  "New sampleJSON ''0'' (Some 0) 0 LDefault testMove world0 = Some (testServer sampleJSON LDefault)
   \<and> Decode sampleJSON (Reader ''{invalid}'' None) = Inl ''invalid character''
   \<and> status (ServeHTTP (fst (testServer sampleJSON LDefault)) NewRecorder
        (request ''POST'' ''/move'' ''{invalid}'') (snd (testServer sampleJSON LDefault))) = Some 400
   \<and> calls (ServeHTTP (fst (testServer sampleJSON LDefault)) NewRecorder
        (request ''POST'' ''/move'' ''{invalid}'') (snd (testServer sampleJSON LDefault))) = []
   \<and> map lineText (logAfter (ServeHTTP (fst (testServer sampleJSON LDefault)) NewRecorder
        (request ''POST'' ''/move'' ''{invalid}'') (snd (testServer sampleJSON LDefault)))
        (snd (testServer sampleJSON LDefault)) 0)
      = [Some ''ERROR Failed to decode move request body: invalid character'']"
proof -
  let ?r = "request ''POST'' ''/move'' ''{invalid}''"
  have bits: "LDefault AND LDebug = 0" "LDefault AND LError \<noteq> 0"
    by (simp_all add: level_values)
  have pa: "Path ?r \<in> {''/start'', ''/end'', ''/move''}"
    by (simp add: sample_decode)
  from decode_failure[where r="?r" and world="snd (testServer sampleJSON LDefault)",
      OF testServer_New'[of sampleJSON LDefault] pa sample_decode(6) sample_decode(2)]
  obtain run where run: "ServeHTTP (fst (testServer sampleJSON LDefault)) NewRecorder ?r
        (snd (testServer sampleJSON LDefault)) = Handled run"
    and ok: "\<not> panicked run" "StatusCode (response run) = 400" "moveCalls run = []"
      "logOutput (finalWorld run) 0 =
         [(''ERROR Failed to decode move request body: %s'', [E ''invalid character''])]"
    by (auto simp add: bits sample_decode world0_log)
  show ?thesis
    by (simp add: run ok testServer_New sample_decode lineText_def)
qed



text \<open>
  C4 does not hold as stated: the info line is written only when the info bit is set
  in the logger mask.  On the server of the tests (mask 0) a start request with a valid
  body is answered 200 with an empty body, and nothing is logged.
\<close>

theorem start_silent_at_mask_zero:
  "Decode sampleJSON (Reader ''{}'' None) = Inr (Some zeroGameState)
   \<and> status (ServeHTTP (fst (testServer sampleJSON 0)) NewRecorder
        (request ''POST'' ''/start'' ''{}'') (snd (testServer sampleJSON 0))) = Some 200
   \<and> sent (ServeHTTP (fst (testServer sampleJSON 0)) NewRecorder
        (request ''POST'' ''/start'' ''{}'') (snd (testServer sampleJSON 0))) = Some []
   \<and> logAfter (ServeHTTP (fst (testServer sampleJSON 0)) NewRecorder
        (request ''POST'' ''/start'' ''{}'') (snd (testServer sampleJSON 0)))
        (snd (testServer sampleJSON 0)) = (\<lambda>d. [])"
  by (simp add: test_runs_mask_zero(1) sample_decode recorder_header_only testServer_facts)

text \<open>
  C4, amended.  For a request to \<open>/start\<close> or \<open>/end\<close> whose body is read without error
  and decodes to a game state, the handler does not touch the response: it is 200 with
  an empty body.  When the info bit is set in the mask, exactly one info line is written,
  naming the game ID, the turn and the snake ID and ending in \<open>- Start\<close> (respectively
  \<open>- End\<close>); when the info bit is not set, no info line is written.  The only other line
  is the middleware's debug line before it, when the debug bit is set.
\<close>

theorem start_end_routes:
  assumes "New js port' (Some p) d m mf w0 = Some (s, w1)"
    and "Path r = ''/start'' \<or> Path r = ''/end''"
    and "Body r = Reader b None"
    and "Decode js (Reader b None) = Inr (Some st)"
  shows "\<exists>run. ServeHTTP s NewRecorder r world = Handled run
           \<and> \<not> panicked run \<and> moveCalls run = []
           \<and> response run = NewRecorder
           \<and> StatusCode (response run) = 200 \<and> Written (response run) = []
           \<and> infoCells (finalWorld run) = infoCells world
           \<and> logOutput (finalWorld run) = (logOutput world)(d := logOutput world d
               @ (if m AND LDebug \<noteq> 0
                  then [(''DEBUG %s %s %s\<newline>'', [S (Method r), S (Path r), S b])] else [])
               @ (if m AND LInfo \<noteq> 0
                  then [(''INFO Game ID %s [Turn %d] Snake ID %s - ''
                           @ (if Path r = ''/start'' then ''Start'' else ''End''),
                         [S (Game.ID (Game st)), I (Turn st), S (Battlesnake.ID (You st))])]
                  else []))
           \<and> lineText (''INFO Game ID %s [Turn %d] Snake ID %s - ''
                           @ (if Path r = ''/start'' then ''Start'' else ''End''),
                         [S (Game.ID (Game st)), I (Turn st), S (Battlesnake.ID (You st))]) =
               Some (''INFO Game ID '' @ Game.ID (Game st) @ '' [Turn '' @ Itoa (Turn st)
                     @ ''] Snake ID '' @ Battlesnake.ID (You st) @ '' - ''
                     @ (if Path r = ''/start'' then ''Start'' else ''End''))"
proof -
  note lg = New_Some(4)[OF assms(1)]
  have dec: "Decode js (Body r) = Inr (Some st)"
    using assms(3,4) by simp
  from assms(2) show ?thesis
  proof
    assume pa: "Path r = ''/start''"
    show ?thesis
      unfolding serve_complete(2)[OF assms(1,3) pa] startHandler_run(3)[OF dec]
      by (simp add: pa lg NewLogger_fields level_log_fun level_cells recorder_header_only
            info_line_text)
  next
    assume pa: "Path r = ''/end''"
    show ?thesis
      unfolding serve_complete(3)[OF assms(1,3) pa] endHandler_run(3)[OF dec]
      by (simp add: pa lg NewLogger_fields level_log_fun level_cells recorder_header_only
            info_line_text)
  qed
qed

text \<open>
  The theorem at work with the default mask: an end request with the body \<open>{}\<close> is
  answered 200 with an empty body and one info line.
\<close>

theorem start_end_routes_witness:
  "New sampleJSON ''0'' (Some 0) 0 LDefault testMove world0 = Some (testServer sampleJSON LDefault)
   \<and> Decode sampleJSON (Reader ''{}'' None) = Inr (Some zeroGameState)
   \<and> status (ServeHTTP (fst (testServer sampleJSON LDefault)) NewRecorder
        (request ''POST'' ''/end'' ''{}'') (snd (testServer sampleJSON LDefault))) = Some 200
   \<and> sent (ServeHTTP (fst (testServer sampleJSON LDefault)) NewRecorder
        (request ''POST'' ''/end'' ''{}'') (snd (testServer sampleJSON LDefault))) = Some []
   \<and> map lineText (logAfter (ServeHTTP (fst (testServer sampleJSON LDefault)) NewRecorder
        (request ''POST'' ''/end'' ''{}'') (snd (testServer sampleJSON LDefault)))
        (snd (testServer sampleJSON LDefault)) 0)
      = [Some ''INFO Game ID  [Turn 0] Snake ID  - End'']"
proof -
  let ?r = "request ''POST'' ''/end'' ''{}''"
  have bits: "LDefault AND LDebug = 0" "LDefault AND LInfo \<noteq> 0"
    by (simp_all add: level_values)
  have pa: "Path ?r = ''/start'' \<or> Path ?r = ''/end''"
    by (simp add: sample_decode)
  from start_end_routes[where r="?r" and world="snd (testServer sampleJSON LDefault)",
      OF testServer_New'[of sampleJSON LDefault] pa sample_decode(6) sample_decode(1)]
  obtain run where run: "ServeHTTP (fst (testServer sampleJSON LDefault)) NewRecorder ?r
        (snd (testServer sampleJSON LDefault)) = Handled run"
    and ok: "\<not> panicked run" "StatusCode (response run) = 200" "Written (response run) = []"
      "logOutput (finalWorld run) 0 =
         [(''INFO Game ID %s [Turn %d] Snake ID %s - End'', [S [], I 0, S []])]"
    by (auto simp add: bits sample_decode zero_ids world0_log)
  show ?thesis
    by (simp add: run ok testServer_New sample_decode lineText_def Itoa_def)
qed

text \<open>
  C5 does not hold as stated, for three kinds of path other than \<open>/\<close>.  The paths
  \<open>/start\<close>, \<open>/end\<close> and \<open>/move\<close> reach their own handlers: a GET to \<open>/start\<close>
  without a body is answered 400.  A path that is not in canonical form never reaches a
  handler: a GET to \<open>//does-not-exist\<close> is answered by the mux with a redirect.  And
  with the debug bit set, a GET to \<open>/does-not-exist\<close> whose body cannot be read is
  answered 400 by the middleware.
\<close>

theorem other_paths_not_404:
  "Method (request ''GET'' ''/start'' []) = ''GET''
   \<and> Path (request ''GET'' ''/start'' []) \<noteq> ''/''
   \<and> status (ServeHTTP (fst (testServer sampleJSON 0)) NewRecorder
        (request ''GET'' ''/start'' []) (snd (testServer sampleJSON 0))) = Some 400
   \<and> Path (request ''GET'' ''//does-not-exist'' []) \<noteq> ''/''
   \<and> status (ServeHTTP (fst (testServer sampleJSON 0)) NewRecorder
        (request ''GET'' ''//does-not-exist'' []) (snd (testServer sampleJSON 0))) = Some 301
   \<and> Path \<lparr>Method = ''GET'', Target = URL ''/does-not-exist'',
            Body = Reader [] (Some ''unexpected EOF'')\<rparr> \<noteq> ''/''
   \<and> status (ServeHTTP (fst (testServer sampleJSON LDebug)) NewRecorder
        \<lparr>Method = ''GET'', Target = URL ''/does-not-exist'',
         Body = Reader [] (Some ''unexpected EOF'')\<rparr>
        (snd (testServer sampleJSON LDebug))) = Some 400"
proof -
  let ?broken = "\<lparr>Method = ''GET'', Target = URL ''/does-not-exist'',
                  Body = Reader [] (Some ''unexpected EOF'')\<rparr>"
  have c: "cleanPath ''//does-not-exist'' = ''/does-not-exist''"
    "cleanPath ''/does-not-exist'' = ''/does-not-exist''"
    by (simp_all add: cleanPath_def Clean_def)
  have redirect: "ServeHTTP (fst (testServer sampleJSON 0)) NewRecorder
        (request ''GET'' ''//does-not-exist'' []) (snd (testServer sampleJSON 0)) = Redirect"
    by (simp add: ServeHTTP_def c request_def Path_def)
  have pa: "Path ?broken = ''/does-not-exist''"
    by (simp add: Path_def)
  have "ServeHTTP (fst (testServer sampleJSON LDebug)) NewRecorder ?broken
        (snd (testServer sampleJSON LDebug)) =
      Handled (withRequestLogging (fst (testServer sampleJSON LDebug))
        (indexHandler sampleJSON (fst (testServer sampleJSON LDebug))) NewRecorder ?broken
        (snd (testServer sampleJSON LDebug)))"
    by (rule serve_unregistered[OF testServer_facts(1)]) (simp_all add: pa c)
  then have broken: "status (ServeHTTP (fst (testServer sampleJSON LDebug)) NewRecorder ?broken
        (snd (testServer sampleJSON LDebug))) = Some 400"
    by (simp add: middleware_broken_body[where b="[]" and err="''unexpected EOF''"]
          testServer_facts NewLogger_fields level_values recorder_header_only
          StatusBadRequest_def)
  show ?thesis
    by (simp add: test_runs_mask_zero(2) sample_decode recorder_header_only redirect broken pa
          StatusBadRequest_def StatusMovedPermanently_def)
qed

text \<open>
  C5, amended.  For every request, GET or of any other method, whose path is in
  canonical form and is none of \<open>/\<close>, \<open>/start\<close>, \<open>/end\<close>, \<open>/move\<close>, and whose body is
  read without error, the answer is 404 and the move function is not called.  A request
  to \<open>/\<close> is handled by the index handler whatever its method.
\<close>

theorem unregistered_paths:
  assumes "New js port' (Some p) d m mf w0 = Some (s, w1)"
    and "Body r = Reader b None"
  shows "(Path r \<notin> {''/'', ''/start'', ''/end'', ''/move''} \<longrightarrow>
            cleanPath (Path r) = Path r \<longrightarrow>
            status (ServeHTTP s NewRecorder r world) = Some StatusNotFound
            \<and> calls (ServeHTTP s NewRecorder r world) = [])
       \<and> (Path r = ''/'' \<longrightarrow>
            ServeHTTP s w r world = Handled (withRequestLogging s (indexHandler js s) w r world))"
proof (intro conjI impI)
  assume out: "Path r \<notin> {''/'', ''/start'', ''/end'', ''/move''}"
    and ok: "cleanPath (Path r) = Path r"
  from out have ne: "Path r \<noteq> ''/''"
    by simp
  show "status (ServeHTTP s NewRecorder r world) = Some StatusNotFound"
    unfolding serve_unregistered[OF New_Some(1)[OF assms(1)] out ok]
    by (simp add: middleware_complete_body[OF assms(2)] indexHandler_run(1)[OF ne]
          recorder_header_only StatusNotFound_def)
  show "calls (ServeHTTP s NewRecorder r world) = []"
    unfolding serve_unregistered[OF New_Some(1)[OF assms(1)] out ok]
    by (simp add: middleware_complete_body[OF assms(2)] indexHandler_run(1)[OF ne])
next
  assume "Path r = ''/''"
  then show "ServeHTTP s w r world = Handled (withRequestLogging s (indexHandler js s) w r world)"
    by (rule serve_registered(1)[OF New_Some(1)[OF assms(1)]])
qed

text \<open>
  The theorem at work: \<open>GET /does-not-exist\<close> is answered 404, and \<open>DELETE /\<close> is
  answered by the index handler, with 200.
\<close>

theorem unregistered_paths_witness:
  "New sampleJSON ''0'' (Some 0) 0 0 testMove world0 = Some (testServer sampleJSON 0)
   \<and> cleanPath ''/does-not-exist'' = ''/does-not-exist''
   \<and> status (ServeHTTP (fst (testServer sampleJSON 0)) NewRecorder
        (request ''GET'' ''/does-not-exist'' []) (snd (testServer sampleJSON 0))) = Some 404
   \<and> status (ServeHTTP (fst (testServer sampleJSON 0)) NewRecorder
        (request ''DELETE'' ''/'' []) (snd (testServer sampleJSON 0))) = Some 200"
proof -
  note u = unregistered_paths[OF testServer_New'[of sampleJSON 0] sample_decode(6)]
  have c: "cleanPath ''/does-not-exist'' = ''/does-not-exist''"
    by (simp add: cleanPath_def Clean_def)
  have a: "status (ServeHTTP (fst (testServer sampleJSON 0)) NewRecorder
        (request ''GET'' ''/does-not-exist'' []) (snd (testServer sampleJSON 0))) = Some 404"
    using u[of "''GET''" "''/does-not-exist''" "[]", THEN conjunct1]
    by (simp add: sample_decode c StatusNotFound_def)
  have d: "ServeHTTP (fst (testServer sampleJSON 0)) NewRecorder
        (request ''DELETE'' ''/'' []) (snd (testServer sampleJSON 0)) =
      Handled (withRequestLogging (fst (testServer sampleJSON 0))
        (indexHandler sampleJSON (fst (testServer sampleJSON 0))) NewRecorder
        (request ''DELETE'' ''/'' []) (snd (testServer sampleJSON 0)))"
    using u[of "''DELETE''" "''/''" "[]", THEN conjunct2]
    by (simp add: sample_decode)
  show ?thesis
    by (simp add: a c d testServer_New middleware_request indexHandler_def Encode_def
          sample_decode testServer_facts silent_levels NewLogger_fields sample_encode_up
          recorder_written)
qed

text \<open>
  C6.  When the debug bit is not set in the mask of the server's logger,
  \<open>withRequestLogging\<close> returns the handler it was given: the two are the same
  function, so for every request the response, the log and everything else are those of
  the handler called directly, and no body is read or logged by the middleware.  The
  result is decided when the handler is wrapped; no request is involved: the mux that
  \<open>New\<close> builds holds the four route handlers themselves.
\<close>

theorem request_logging_disabled:
  assumes "opts (logger s) AND LDebug = 0"
  shows "withRequestLogging s next = next
       \<and> withRequestLogging s next w r world = next w r world
       \<and> (New js port' (Some p) d m mf w0 = Some (s, w1) \<longrightarrow>
            Handler s = [(''/'', indexHandler js s), (''/start'', startHandler js s),
                         (''/end'', endHandler js s), (''/move'', moveHandler js s)])"
proof -
  have same: "withRequestLogging s h = h" for h
    using assms by (simp add: withRequestLogging_def Enabled_def)
  have "Handler s = [(''/'', indexHandler js s), (''/start'', startHandler js s),
                     (''/end'', endHandler js s), (''/move'', moveHandler js s)]"
    if "New js port' (Some p) d m mf w0 = Some (s, w1)"
    using New_Some(1)[OF that] by (simp add: routes_def same)
  then show ?thesis
    by (simp add: same)
qed

text \<open>
  The theorem at work with the default mask: the wrapped start handler is the start
  handler, and a start request logs its info line only.
\<close>

theorem request_logging_disabled_witness:
  "opts (logger (fst (testServer sampleJSON LDefault))) AND LDebug = 0
   \<and> withRequestLogging (fst (testServer sampleJSON LDefault))
        (startHandler sampleJSON (fst (testServer sampleJSON LDefault)))
      = startHandler sampleJSON (fst (testServer sampleJSON LDefault))
   \<and> logAfter (ServeHTTP (fst (testServer sampleJSON LDefault)) NewRecorder
        (request ''POST'' ''/start'' ''{}'') (snd (testServer sampleJSON LDefault)))
        (snd (testServer sampleJSON LDefault)) 0
      = [(''INFO Game ID %s [Turn %d] Snake ID %s - Start'', [S [], I 0, S []])]"
proof -
  let ?s = "fst (testServer sampleJSON LDefault)"
  have off: "opts (logger ?s) AND LDebug = 0"
    by (simp add: testServer_facts NewLogger_fields level_values)
  have id: "withRequestLogging ?s (startHandler sampleJSON ?s) = startHandler sampleJSON ?s"
    using request_logging_disabled[OF off] by simp
  have "ServeHTTP ?s NewRecorder (request ''POST'' ''/start'' ''{}'') (snd (testServer sampleJSON LDefault))
        = Handled (startHandler sampleJSON ?s NewRecorder (request ''POST'' ''/start'' ''{}'')
            (snd (testServer sampleJSON LDefault)))"
    by (simp add: serve_registered(2)[OF testServer_facts(1)] sample_decode id)
  then show ?thesis
    using off id
    by (simp add: startHandler_def sample_decode level_log testServer_facts level_values
          NewLogger_fields zeroGameState_def zeroSnake_def)
qed

text \<open>
  C7.  When the debug bit is set, the middleware reads the whole body first.  If reading
  fails, the result is fixed: status 400, no call of the wrapped handler (the result does
  not depend on it).  If reading succeeds with bytes \<open>b\<close>, the stream that came with the
  request is used up and would deliver nothing more; the wrapped handler is called with
  the request carrying a new stream that delivers exactly \<open>b\<close>, in a store whose log
  already ends with the debug line; the text of that line is \<open>DEBUG\<close>, the method, the
  path and \<open>b\<close>.  Nothing is asked of \<open>b\<close>, so this holds for malformed bodies too.
  Every line a route handler writes comes after the debug line.  The same on the
  server that \<open>New\<close> builds, for every request that reaches a handler (a path in canonical
  form): a body that cannot be read gives 400 without a call of the move function, and
  otherwise the log continues with the debug line, before anything else.
\<close>

theorem request_logging_enabled:
  assumes "opts (logger s) AND LDebug \<noteq> 0"
  shows "(Body r = Reader b (Some err) \<longrightarrow>
            fst (ReadAll (Body r)) = Inl err
            \<and> withRequestLogging s next w r world =
              \<lparr>finalWorld = Err (logger s) ''Failed to read request body: %s'' [E err] world,
               response = WriteHeader w StatusBadRequest, moveCalls = [], panicked = False\<rparr>
            \<and> StatusCode (response (withRequestLogging s next NewRecorder r world)) = 400)
       \<and> (Body r = Reader b None \<longrightarrow>
            ReadAll (Body r) = (Inr b, Reader [] None)
            \<and> ReadAll (Reader [] None) = (Inr [], Reader [] None)
            \<and> ReadAll (NopCloser (NewBuffer b)) = (Inr b, Reader [] None)
            \<and> withRequestLogging s next w r world =
              next w (r\<lparr>Body := NopCloser (NewBuffer b)\<rparr>)
                (world\<lparr>logOutput := (logOutput world)
                   (log_Logger (logger s) := logOutput world (log_Logger (logger s))
                      @ [(''DEBUG %s %s %s\<newline>'', [S (Method r), S (Path r), S b])])\<rparr>)
            \<and> lineText (''DEBUG %s %s %s\<newline>'', [S (Method r), S (Path r), S b]) =
                Some (''DEBUG '' @ Method r @ '' '' @ Path r @ '' '' @ b @ ''\<newline>'')
            \<and> (\<forall>h \<in> {indexHandler js s, startHandler js s, endHandler js s, moveHandler js s}.
                 \<exists>rest. logOutput (finalWorld (withRequestLogging s h w r world)) (log_Logger (logger s)) =
                   logOutput world (log_Logger (logger s))
                   @ (''DEBUG %s %s %s\<newline>'', [S (Method r), S (Path r), S b]) # rest))
       \<and> (New js port' (Some p) d m mf w0 = Some (s, w1) \<longrightarrow> cleanPath (Path r) = Path r \<longrightarrow>
            (Body r = Reader b (Some err) \<longrightarrow>
               status (ServeHTTP s NewRecorder r world) = Some 400
               \<and> calls (ServeHTTP s NewRecorder r world) = [])
            \<and> (Body r = Reader b None \<longrightarrow>
               (\<exists>rest. logAfter (ServeHTTP s w r world) world (log_Logger (logger s)) =
                  logOutput world (log_Logger (logger s))
                  @ (''DEBUG %s %s %s\<newline>'', [S (Method r), S (Path r), S b]) # rest)))"
proof -
  have broken: "withRequestLogging s h w' r world =
      \<lparr>finalWorld = Err (logger s) ''Failed to read request body: %s'' [E err] world,
       response = WriteHeader w' StatusBadRequest, moveCalls = [], panicked = False\<rparr>"
    if "Body r = Reader b (Some err)" for h w'
    using assms by (simp add: middleware_broken_body[OF that] level_bits)
  have dbg: "Debug (logger s) ''%s %s %s\<newline>'' [S (Method r), S (Path r), S b] world =
      world\<lparr>logOutput := (logOutput world)
         (log_Logger (logger s) := logOutput world (log_Logger (logger s))
            @ [(''DEBUG %s %s %s\<newline>'', [S (Method r), S (Path r), S b])])\<rparr>"
    using assms by (simp add: Debug_def Printf_def)
  have run: "withRequestLogging s h w r world =
      h w (r\<lparr>Body := NopCloser (NewBuffer b)\<rparr>)
        (world\<lparr>logOutput := (logOutput world)
           (log_Logger (logger s) := logOutput world (log_Logger (logger s))
              @ [(''DEBUG %s %s %s\<newline>'', [S (Method r), S (Path r), S b])])\<rparr>)"
    if "Body r = Reader b None" for h
    using assms that
    by (simp add: withRequestLogging_def Enabled_def Let_def Path_update dbg)
  have after: "\<exists>rest. logOutput (finalWorld (withRequestLogging s h w r world)) (log_Logger (logger s)) =
        logOutput world (log_Logger (logger s))
        @ (''DEBUG %s %s %s\<newline>'', [S (Method r), S (Path r), S b]) # rest"
    if body: "Body r = Reader b None"
      and h: "h \<in> {indexHandler js s, startHandler js s, endHandler js s, moveHandler js s}" for h
  proof -
    from h have "\<exists>rest. logOutput (finalWorld (h w' r' world')) d' = logOutput world' d' @ rest"
      for w' r' world' d'
      using handlers_append[of js s w' r' world' d'] by auto
    then obtain rest where
      "logOutput (finalWorld (h w (r\<lparr>Body := NopCloser (NewBuffer b)\<rparr>)
          (world\<lparr>logOutput := (logOutput world)
             (log_Logger (logger s) := logOutput world (log_Logger (logger s))
                @ [(''DEBUG %s %s %s\<newline>'', [S (Method r), S (Path r), S b])])\<rparr>)))
         (log_Logger (logger s)) =
       logOutput (world\<lparr>logOutput := (logOutput world)
             (log_Logger (logger s) := logOutput world (log_Logger (logger s))
                @ [(''DEBUG %s %s %s\<newline>'', [S (Method r), S (Path r), S b])])\<rparr>)
         (log_Logger (logger s)) @ rest"
      by blast
    then show ?thesis
      by (simp add: run[OF body])
  qed
  have served: "\<exists>h \<in> {indexHandler js s, startHandler js s, endHandler js s, moveHandler js s}.
      ServeHTTP s w' r world = Handled (withRequestLogging s h w' r world)"
    if "New js port' (Some p) d m mf w0 = Some (s, w1)" and "cleanPath (Path r) = Path r" for w'
    using serve_canonical[OF New_Some(1)[OF that(1)] that(2)] .
  show ?thesis
  proof (intro conjI impI)
    assume body: "Body r = Reader b (Some err)"
    show "fst (ReadAll (Body r)) = Inl err"
      by (simp add: body)
    show "withRequestLogging s next w r world =
      \<lparr>finalWorld = Err (logger s) ''Failed to read request body: %s'' [E err] world,
       response = WriteHeader w StatusBadRequest, moveCalls = [], panicked = False\<rparr>"
      by (rule broken[OF body])
    show "StatusCode (response (withRequestLogging s next NewRecorder r world)) = 400"
      by (simp add: broken[OF body] recorder_header_only StatusBadRequest_def)
  next
    assume body: "Body r = Reader b None"
    show "ReadAll (Body r) = (Inr b, Reader [] None)"
      by (simp add: body)
    show "ReadAll (Reader [] None) = (Inr [], Reader [] None)"
      by simp
    show "ReadAll (NopCloser (NewBuffer b)) = (Inr b, Reader [] None)"
      by (simp add: NopCloser_def NewBuffer_def)
    show "withRequestLogging s next w r world =
      next w (r\<lparr>Body := NopCloser (NewBuffer b)\<rparr>)
        (world\<lparr>logOutput := (logOutput world)
           (log_Logger (logger s) := logOutput world (log_Logger (logger s))
              @ [(''DEBUG %s %s %s\<newline>'', [S (Method r), S (Path r), S b])])\<rparr>)"
      by (rule run[OF body])
    show "lineText (''DEBUG %s %s %s\<newline>'', [S (Method r), S (Path r), S b]) =
      Some (''DEBUG '' @ Method r @ '' '' @ Path r @ '' '' @ b @ ''\<newline>'')"
      by (rule debug_line_text)
    show "\<forall>h \<in> {indexHandler js s, startHandler js s, endHandler js s, moveHandler js s}.
      \<exists>rest. logOutput (finalWorld (withRequestLogging s h w r world)) (log_Logger (logger s)) =
        logOutput world (log_Logger (logger s))
        @ (''DEBUG %s %s %s\<newline>'', [S (Method r), S (Path r), S b]) # rest"
      using after[OF body] by blast
  next
    assume n: "New js port' (Some p) d m mf w0 = Some (s, w1)"
      and c: "cleanPath (Path r) = Path r" and body: "Body r = Reader b (Some err)"
    from served[OF n c, of NewRecorder] obtain h where
      "ServeHTTP s NewRecorder r world = Handled (withRequestLogging s h NewRecorder r world)"
      by blast
    then show "status (ServeHTTP s NewRecorder r world) = Some 400"
      and "calls (ServeHTTP s NewRecorder r world) = []"
      by (simp_all add: broken[OF body] recorder_header_only StatusBadRequest_def)
  next
    assume n: "New js port' (Some p) d m mf w0 = Some (s, w1)"
      and c: "cleanPath (Path r) = Path r" and body: "Body r = Reader b None"
    from served[OF n c, of w] obtain h where
      h: "h \<in> {indexHandler js s, startHandler js s, endHandler js s, moveHandler js s}"
      and "ServeHTTP s w r world = Handled (withRequestLogging s h w r world)"
      by blast
    then show "\<exists>rest. logAfter (ServeHTTP s w r world) world (log_Logger (logger s)) =
        logOutput world (log_Logger (logger s))
        @ (''DEBUG %s %s %s\<newline>'', [S (Method r), S (Path r), S b]) # rest"
      using after[OF body h] by simp
  qed
qed

text \<open>
  The theorem at work with the default mask and the debug bit.  A start request with
  the body \<open>{}\<close> is answered 200: the handler decoded the bytes the middleware had
  already read; the log has the debug line and then the handler's info line.  A start
  request with the body \<open>{invalid}\<close> logs the debug line and then the handler's error
  line.  A move request whose body breaks while it is read is answered 400 and the move
  function is not called.
\<close>

theorem request_logging_enabled_witness:
  "opts (logger (fst (testServer sampleJSON (LDefault OR LDebug)))) AND LDebug \<noteq> 0
   \<and> ReadAll (Body (request ''POST'' ''/start'' ''{}'')) = (Inr ''{}'', Reader [] None)
   \<and> Decode sampleJSON (Reader [] None) = Inl ''EOF''
   \<and> status (ServeHTTP (fst (testServer sampleJSON (LDefault OR LDebug))) NewRecorder
        (request ''POST'' ''/start'' ''{}'') (snd (testServer sampleJSON (LDefault OR LDebug)))) = Some 200
   \<and> map lineText (logAfter (ServeHTTP (fst (testServer sampleJSON (LDefault OR LDebug))) NewRecorder
        (request ''POST'' ''/start'' ''{}'') (snd (testServer sampleJSON (LDefault OR LDebug))))
        (snd (testServer sampleJSON (LDefault OR LDebug))) 0)
      = [Some ''DEBUG POST /start {}\<newline>'',
         Some ''INFO Game ID  [Turn 0] Snake ID  - Start'']
   \<and> map lineText (logAfter (ServeHTTP (fst (testServer sampleJSON (LDefault OR LDebug))) NewRecorder
        (request ''POST'' ''/start'' ''{invalid}'') (snd (testServer sampleJSON (LDefault OR LDebug))))
        (snd (testServer sampleJSON (LDefault OR LDebug))) 0)
      = [Some ''DEBUG POST /start {invalid}\<newline>'',
         Some ''ERROR Failed to decode start request body: invalid character'']
   \<and> status (ServeHTTP (fst (testServer sampleJSON (LDefault OR LDebug))) NewRecorder
        \<lparr>Method = ''POST'', Target = URL ''/move'', Body = Reader ''{}'' (Some ''unexpected EOF'')\<rparr>
        (snd (testServer sampleJSON (LDefault OR LDebug)))) = Some 400
   \<and> calls (ServeHTTP (fst (testServer sampleJSON (LDefault OR LDebug))) NewRecorder
        \<lparr>Method = ''POST'', Target = URL ''/move'', Body = Reader ''{}'' (Some ''unexpected EOF'')\<rparr>
        (snd (testServer sampleJSON (LDefault OR LDebug)))) = []"
proof -
  let ?s = "fst (testServer sampleJSON (LDefault OR LDebug))"
  let ?w = "snd (testServer sampleJSON (LDefault OR LDebug))"
  let ?ok = "request ''POST'' ''/start'' ''{}''"
  let ?r = "request ''POST'' ''/start'' ''{invalid}''"
  let ?broken = "\<lparr>Method = ''POST'', Target = URL ''/move'', Body = Reader ''{}'' (Some ''unexpected EOF'')\<rparr>"
  have bits: "(LDefault OR LDebug) AND LDebug \<noteq> 0" "(LDefault OR LDebug) AND LError \<noteq> 0"
    "(LDefault OR LDebug) AND LInfo \<noteq> 0"
    by (simp_all add: level_values)
  have on: "opts (logger ?s) AND LDebug \<noteq> 0"
    by (simp add: testServer_facts NewLogger_fields bits)
  note e = request_logging_enabled[OF on]
  have pa: "Path ?broken = ''/move''"
    by (simp add: Path_def)
  have a: "withRequestLogging ?s (moveHandler sampleJSON ?s) NewRecorder ?broken ?w =
      \<lparr>finalWorld = Err (logger ?s) ''Failed to read request body: %s'' [E ''unexpected EOF''] ?w,
       response = WriteHeader NewRecorder StatusBadRequest, moveCalls = [], panicked = False\<rparr>"
    using e[where r="?broken" and b="''{}''" and err="''unexpected EOF''", THEN conjunct1]
    by simp
  have b: "withRequestLogging ?s (startHandler sampleJSON ?s) NewRecorder (request ''POST'' ''/start'' bd) ?w =
      startHandler sampleJSON ?s NewRecorder
        ((request ''POST'' ''/start'' bd)\<lparr>Body := NopCloser (NewBuffer bd)\<rparr>)
        (?w\<lparr>logOutput := (logOutput ?w)(log_Logger (logger ?s) := logOutput ?w (log_Logger (logger ?s))
            @ [(''DEBUG %s %s %s\<newline>'',
                [S (Method (request ''POST'' ''/start'' bd)), S (Path (request ''POST'' ''/start'' bd)),
                 S bd])])\<rparr>)" for bd
    using e[where r="request ''POST'' ''/start'' bd" and b=bd, THEN conjunct2, THEN conjunct1]
    by (simp add: sample_decode)
  have sa: "ServeHTTP ?s NewRecorder ?broken ?w =
      Handled (withRequestLogging ?s (moveHandler sampleJSON ?s) NewRecorder ?broken ?w)"
    by (rule serve_registered(4)[OF testServer_facts(1)]) (rule pa)
  have sb: "ServeHTTP ?s NewRecorder (request ''POST'' ''/start'' bd) ?w =
      Handled (withRequestLogging ?s (startHandler sampleJSON ?s) NewRecorder
        (request ''POST'' ''/start'' bd) ?w)" for bd
    by (rule serve_registered(2)[OF testServer_facts(1)]) (simp add: sample_decode)
  show ?thesis
    unfolding sa sb a b
    by (simp add: on startHandler_def sample_decode level_log testServer_facts NewLogger_fields
          bits recorder_header_only StatusBadRequest_def lineText_def request_def Path_def
          NopCloser_def NewBuffer_def sampleJSON_def zero_ids Itoa_def)
qed

text \<open>
  C8.  The four levels are distinct bits: error 1, warning 2, info 4, debug 8.  For a
  logger constructed with mask \<open>m\<close>, each of \<open>Err\<close>, \<open>Warn\<close>, \<open>Info\<close>, \<open>Debug\<close>
  leaves everything as it is when its bit is not set in \<open>m\<close>, and otherwise makes one
  \<open>Printf\<close> call, which appends exactly one line to the wrapped \<open>log.Logger\<close>; the
  text of that line is the level name, a space, and the formatted message.  The default
  mask has exactly the bits of error, warning and info, so \<open>Debug\<close> does nothing
  under it.
\<close>

theorem Logger_level_methods:
  "LError = 1 \<and> LWarning = 2 \<and> LInfo = 4 \<and> LDebug = 8
   \<and> Err (NewLogger d m) f v world =
       (if bit m 0 then Printf (NewLogger d m) (''ERROR '' @ f) v world else world)
   \<and> Warn (NewLogger d m) f v world =
       (if bit m 1 then Printf (NewLogger d m) (''WARN '' @ f) v world else world)
   \<and> Info (NewLogger d m) f v world =
       (if bit m 2 then Printf (NewLogger d m) (''INFO '' @ f) v world else world)
   \<and> Debug (NewLogger d m) f v world =
       (if bit m 3 then Printf (NewLogger d m) (''DEBUG '' @ f) v world else world)
   \<and> logOutput (Printf (NewLogger d m) g v world) =
       (logOutput world)(d := logOutput world d @ [(g, v)])
   \<and> infoCells (Printf (NewLogger d m) g v world) = infoCells world
   \<and> lineText (''ERROR '' @ f, v) = map_option ((@) ''ERROR '') (lineText (f, v))
   \<and> lineText (''WARN '' @ f, v) = map_option ((@) ''WARN '') (lineText (f, v))
   \<and> lineText (''INFO '' @ f, v) = map_option ((@) ''INFO '') (lineText (f, v))
   \<and> lineText (''DEBUG '' @ f, v) = map_option ((@) ''DEBUG '') (lineText (f, v))
   \<and> bit LDefault n = (n < 3)
   \<and> Debug (NewLogger d LDefault) f v world = world"
proof -
  have o: "opts (NewLogger d m) = m" "log_Logger (NewLogger d m) = d" for m
    by (simp_all add: NewLogger_def)
  have vals: "LError = 1" "LWarning = 2" "LInfo = 4" "LDebug = 8"
    by (simp_all add: level_values)
  have meths:
    "Err (NewLogger d m) f v world =
       (if bit m 0 then Printf (NewLogger d m) (''ERROR '' @ f) v world else world)"
    "Warn (NewLogger d m) f v world =
       (if bit m 1 then Printf (NewLogger d m) (''WARN '' @ f) v world else world)"
    "Info (NewLogger d m) f v world =
       (if bit m 2 then Printf (NewLogger d m) (''INFO '' @ f) v world else world)"
    "Debug (NewLogger d m) f v world =
       (if bit m 3 then Printf (NewLogger d m) (''DEBUG '' @ f) v world else world)"
    by (simp_all add: level_methods o)
  have line:
    "logOutput (Printf (NewLogger d m) g v world) =
       (logOutput world)(d := logOutput world d @ [(g, v)])"
    "infoCells (Printf (NewLogger d m) g v world) = infoCells world"
    by (simp_all add: Printf_effect o)
  have dflt: "Debug (NewLogger d LDefault) f v world = world"
    by (simp add: level_methods o bit_LDefault)
  show ?thesis
    by (intro conjI) (rule vals meths line level_prefix_text bit_LDefault dflt)+
qed

text \<open>
  C9.  For a server built by \<open>New\<close> and a request to one of the four registered paths,
  the method does not matter: two requests that differ only in their method get the
  same response (status, header, body), and the move function receives the same calls.
\<close>

theorem method_independent:
  assumes "New js port' (Some p) d m mf w0 = Some (s, w1)"
    and "Path r \<in> {''/'', ''/start'', ''/end'', ''/move''}"
  shows "answer (ServeHTTP s w (r\<lparr>Method := m1\<rparr>) world) =
         answer (ServeHTTP s w (r\<lparr>Method := m2\<rparr>) world)
       \<and> calls (ServeHTTP s w (r\<lparr>Method := m1\<rparr>) world) =
         calls (ServeHTTP s w (r\<lparr>Method := m2\<rparr>) world)"
proof -
  note rt = serve_registered[OF New_Some(1)[OF assms(1)]]
  have "Target r = URL (Path r)"
    using assms(2) by (intro rooted_target) auto
  then have pm: "Path (r\<lparr>Method := me\<rparr>) = Path r" for me
    by (rule URL_path)
  have eq: "visible (withRequestLogging s h w (r\<lparr>Method := m1\<rparr>) world) =
            visible (withRequestLogging s h w (r\<lparr>Method := m2\<rparr>) world)"
    if "h \<in> {indexHandler js s, startHandler js s, endHandler js s, moveHandler js s}" for h
    using that
    by (intro middleware_visible) (auto intro: handlers_visible simp add: pm)
  have "\<exists>h \<in> {indexHandler js s, startHandler js s, endHandler js s, moveHandler js s}.
          \<forall>me. ServeHTTP s w (r\<lparr>Method := me\<rparr>) world =
            Handled (withRequestLogging s h w (r\<lparr>Method := me\<rparr>) world)"
  proof -
    from assms(2) consider "Path r = ''/''" | "Path r = ''/start''" | "Path r = ''/end''"
      | "Path r = ''/move''"
      by auto
    then show ?thesis
    proof cases
      case 1
      have "Path (r\<lparr>Method := me\<rparr>) = ''/''" for me
        by (simp only: pm 1)
      from rt(1)[OF this] show ?thesis
        by blast
    next
      case 2
      have "Path (r\<lparr>Method := me\<rparr>) = ''/start''" for me
        by (simp only: pm 2)
      from rt(2)[OF this] show ?thesis
        by blast
    next
      case 3
      have "Path (r\<lparr>Method := me\<rparr>) = ''/end''" for me
        by (simp only: pm 3)
      from rt(3)[OF this] show ?thesis
        by blast
    next
      case 4
      have "Path (r\<lparr>Method := me\<rparr>) = ''/move''" for me
        by (simp only: pm 4)
      from rt(4)[OF this] show ?thesis
        by blast
    qed
  qed
  then obtain h where
    h: "h \<in> {indexHandler js s, startHandler js s, endHandler js s, moveHandler js s}"
    and served: "\<And>me. ServeHTTP s w (r\<lparr>Method := me\<rparr>) world =
            Handled (withRequestLogging s h w (r\<lparr>Method := me\<rparr>) world)"
    by blast
  from eq[OF h] show ?thesis
    by (simp add: served visible_def)
qed

text \<open>
  The theorem at work: a GET to \<open>/start\<close> with a valid body is answered as the POST
  is, with 200.
\<close>

theorem method_independent_witness:
  "New sampleJSON ''0'' (Some 0) 0 0 testMove world0 = Some (testServer sampleJSON 0)
   \<and> answer (ServeHTTP (fst (testServer sampleJSON 0)) NewRecorder
        (request ''GET'' ''/start'' ''{}'') (snd (testServer sampleJSON 0)))
     = answer (ServeHTTP (fst (testServer sampleJSON 0)) NewRecorder
        (request ''POST'' ''/start'' ''{}'') (snd (testServer sampleJSON 0)))
   \<and> status (ServeHTTP (fst (testServer sampleJSON 0)) NewRecorder
        (request ''GET'' ''/start'' ''{}'') (snd (testServer sampleJSON 0))) = Some 200"
proof -
  have pa: "Path (request ''PUT'' ''/start'' ''{}'') \<in> {''/'', ''/start'', ''/end'', ''/move''}"
    by (simp add: sample_decode)
  have r: "(request ''PUT'' ''/start'' ''{}'')\<lparr>Method := me\<rparr> = request me ''/start'' ''{}''" for me
    by (simp add: request_def)
  from method_independent[OF testServer_New'[of sampleJSON 0] pa,
      where ?m1.0="''GET''" and ?m2.0="''POST''" and w=NewRecorder
        and world="snd (testServer sampleJSON 0)"]
  have "answer (ServeHTTP (fst (testServer sampleJSON 0)) NewRecorder
        (request ''GET'' ''/start'' ''{}'') (snd (testServer sampleJSON 0)))
     = answer (ServeHTTP (fst (testServer sampleJSON 0)) NewRecorder
        (request ''POST'' ''/start'' ''{}'') (snd (testServer sampleJSON 0)))"
    by (simp add: r)
  then show ?thesis
    by (simp add: testServer_New test_runs_mask_zero(1) recorder_header_only)
qed

text \<open>
  C10.  With mask 0 every level method leaves everything as it is and \<open>Enabled\<close> is
  false for every level.  A server constructed with mask 0 adds no line to the log for
  any request, decode and encode failures included: after a request the log holds what
  it held before, followed only by what the caller's move function printed itself in
  the calls made to it; with a move function that prints nothing, the log is unchanged.
\<close>

theorem mask_zero_silent:
  "Err (NewLogger d 0) f v world = world
   \<and> Warn (NewLogger d 0) f v world = world
   \<and> Info (NewLogger d 0) f v world = world
   \<and> Debug (NewLogger d 0) f v world = world
   \<and> \<not> Enabled (NewLogger d 0) opt
   \<and> (New js port' (Some p) d 0 mf w0 = Some (s, w1) \<longrightarrow>
        logAfter (ServeHTTP s w r world) world =
        logOutput (callerOutput (logger s)
          (concat (map (\<lambda>c. snd (mf (fst c) (snd c))) (calls (ServeHTTP s w r world)))) world))
   \<and> (New js port' (Some p) d 0 mf w0 = Some (s, w1) \<and> (\<forall>st l. snd (mf st l) = []) \<longrightarrow>
        logAfter (ServeHTTP s w r world) world = logOutput world)"
proof -
  have o: "opts (NewLogger d 0) = 0"
    by (simp add: NewLogger_def)
  have srv: "logAfter (ServeHTTP s w r world) world =
        logOutput (callerOutput (logger s)
          (concat (map (\<lambda>c. snd (mf (fst c) (snd c))) (calls (ServeHTTP s w r world)))) world)"
    if n: "New js port' (Some p) d 0 mf w0 = Some (s, w1)"
    using silent_server[OF New_Some(1)[OF n], of w r world] New_Some(4,5)[OF n]
    by (simp add: o ownOutput_def)
  have quiet: "logAfter (ServeHTTP s w r world) world = logOutput world"
    if n: "New js port' (Some p) d 0 mf w0 = Some (s, w1)" and q: "\<forall>st l. snd (mf st l) = []"
  proof -
    have e: "concat (map (\<lambda>c. snd (mf (fst c) (snd c))) cs) = []" for cs
      using q by simp
    show ?thesis
      by (simp only: srv[OF n] e callerOutput_effect)
  qed
  show ?thesis
    using srv quiet by (simp add: silent_levels o Enabled_def)
qed

text \<open>
  The theorem at work on the server of the tests (mask 0): a start request with a
  malformed body is answered 400, a move request whose answer cannot be encoded is
  answered 500, and the log stays empty in both cases.
\<close>

theorem mask_zero_silent_witness:
  "New sampleJSON ''0'' (Some 0) 0 0 testMove world0 = Some (testServer sampleJSON 0)
   \<and> status (ServeHTTP (fst (testServer sampleJSON 0)) NewRecorder
        (request ''POST'' ''/start'' ''{invalid}'') (snd (testServer sampleJSON 0))) = Some 400
   \<and> logAfter (ServeHTTP (fst (testServer sampleJSON 0)) NewRecorder
        (request ''POST'' ''/start'' ''{invalid}'') (snd (testServer sampleJSON 0)))
        (snd (testServer sampleJSON 0)) = (\<lambda>d. [])
   \<and> New failingJSON ''0'' (Some 0) 0 0 testMove world0 = Some (testServer failingJSON 0)
   \<and> status (ServeHTTP (fst (testServer failingJSON 0)) NewRecorder
        (request ''POST'' ''/move'' ''{}'') (snd (testServer failingJSON 0))) = Some 500
   \<and> logAfter (ServeHTTP (fst (testServer failingJSON 0)) NewRecorder
        (request ''POST'' ''/move'' ''{}'') (snd (testServer failingJSON 0)))
        (snd (testServer failingJSON 0)) = (\<lambda>d. [])"
proof -
  note silent = mask_zero_silent[THEN conjunct2, THEN conjunct2, THEN conjunct2, THEN conjunct2,
      THEN conjunct2, THEN conjunct1, rule_format]
  have a: "logAfter (ServeHTTP (fst (testServer sampleJSON 0)) NewRecorder
        (request ''POST'' ''/start'' ''{invalid}'') (snd (testServer sampleJSON 0)))
        (snd (testServer sampleJSON 0)) = (\<lambda>d. [])"
    using silent[OF testServer_New', of sampleJSON NewRecorder "request ''POST'' ''/start'' ''{invalid}''"
             "snd (testServer sampleJSON 0)"]
    by (simp add: test_start_invalid callerOutput_effect testServer_facts)
  have b: "logAfter (ServeHTTP (fst (testServer failingJSON 0)) NewRecorder
        (request ''POST'' ''/move'' ''{}'') (snd (testServer failingJSON 0)))
        (snd (testServer failingJSON 0)) = (\<lambda>d. [])"
    using silent[OF testServer_New', of failingJSON NewRecorder "request ''POST'' ''/move'' ''{}''"
             "snd (testServer failingJSON 0)"]
    by (simp add: test_move_unencodable callerOutput_effect testServer_facts testMove_def)
  show ?thesis
    using a b
    by (simp add: testServer_New test_start_invalid test_move_unencodable recorder_header_only
          StatusBadRequest_def StatusInternalServerError_def)
qed

end
